theory Spec2Isabelle
  imports Complex_Main
begin

section \<open>Python values\<close>

text \<open>
  The program is \<^verbatim>\<open>src/backend_api.py\<close>: a Flask backend with a job tracker
  (\<^verbatim>\<open>TaskManager\<close>), a conversation store (\<^verbatim>\<open>CurriculumDrivenLearningTutor\<close>)
  and two server-sent-event generators.

  A Python \<^verbatim>\<open>str\<close> is a sequence of Unicode code points, and \<^verbatim>\<open>len\<close> and
  slicing count code points; it is modelled as a list of code points. Dictionary keys
  that the source writes as identifiers (\<^verbatim>\<open>'status'\<close>, \<^verbatim>\<open>'progress'\<close>, ...) are
  HOL strings.
\<close>

type_synonym pystr = "nat list"

definition ascii :: "string \<Rightarrow> pystr" where
  "ascii s = map of_char s"

datatype TaskStatus = PENDING | PROCESSING | COMPLETED | FAILED

text \<open>The values the program stores in its dictionaries. \<open>PNone\<close> is Python's \<^verbatim>\<open>None\<close>.\<close>

datatype pyval =
    PNone
  | PBool bool
  | PInt int
  | PFloat real
  | PStr pystr
  | PStatus TaskStatus
  | PDict "(string \<times> pyval) list"

type_synonym pydict = "string \<rightharpoonup> pyval"

text \<open>
  A raised exception, with its class name and the text \<^verbatim>\<open>str(e)\<close> gives for it.
  \<open>PyExn\<close> is an instance of \<^verbatim>\<open>Exception\<close>, which the handlers of the source
  (\<^verbatim>\<open>except Exception\<close>) catch; \<open>PyBaseExn\<close> is a \<^verbatim>\<open>BaseException\<close> that
  is no \<^verbatim>\<open>Exception\<close> (\<^verbatim>\<open>SystemExit\<close>, \<^verbatim>\<open>KeyboardInterrupt\<close>), which
  they let pass.
\<close>

datatype pyexn =
    PyExn (exn_class: string) (exn_str: pystr)
  | PyBaseExn (exn_class: string) (exn_str: pystr)

definition is_Exception :: "pyexn \<Rightarrow> bool" where
  "is_Exception e = (case e of PyExn c s \<Rightarrow> True | PyBaseExn c s \<Rightarrow> False)"

text \<open>Truthiness of an optional string: \<^verbatim>\<open>None\<close> and \<^verbatim>\<open>''\<close> are falsy.\<close>

definition truthy :: "pystr option \<Rightarrow> bool" where
  "truthy v = (case v of None \<Rightarrow> False | Some s \<Rightarrow> s \<noteq> [])"

text \<open>
  \<^verbatim>\<open>str.isspace\<close> on one character: the code points Python treats as whitespace in
  \<^verbatim>\<open>str.strip()\<close>.
\<close>

definition py_isspace :: "nat \<Rightarrow> bool" where
  "py_isspace c \<longleftrightarrow>
     (9 \<le> c \<and> c \<le> 13) \<or> (28 \<le> c \<and> c \<le> 32) \<or> c = 133 \<or> c = 160 \<or> c = 5760 \<or>
     (8192 \<le> c \<and> c \<le> 8202) \<or> c = 8232 \<or> c = 8233 \<or> c = 8239 \<or> c = 8287 \<or> c = 12288"

definition strip :: "pystr \<Rightarrow> pystr" where
  "strip s = rev (dropWhile py_isspace (rev (dropWhile py_isspace s)))"

section \<open>The conversation store\<close>

text \<open>
  A turn is the dictionary \<^verbatim>\<open>{'role': ..., 'content': ...}\<close>. The role is always a
  string literal of the source. The content is a string, or \<^verbatim>\<open>None\<close> when
  \<^verbatim>\<open>analyze_file_content_async\<close> stores a model reply whose
  \<^verbatim>\<open>message.content\<close> is \<^verbatim>\<open>None\<close>.
\<close>

record turn =
  role :: pystr
  content :: "pystr option"

type_synonym conversations = "pystr \<rightharpoonup> turn list"

text \<open>
  What \<^verbatim>\<open>conversations.json\<close> holds: nothing, the JSON of a conversation map, or
  bytes that are not such JSON (a write that failed half way).
\<close>

datatype disk = NoFile | Json conversations | Garbage

text \<open>
  The outcome of one attempt to write the file, chosen by the environment: the write
  succeeds, or it raises an \<^verbatim>\<open>Exception\<close> and leaves the file in the given state.
\<close>

datatype write_outcome = WriteOk | WriteFails disk

record Tutor =
  conversations :: conversations
  conversations_file :: disk

text \<open>\<^verbatim>\<open>save_conversations\<close> (lines 204-210): the exception of a failed write is printed
  and swallowed.\<close>

definition save_conversations :: "write_outcome \<Rightarrow> Tutor \<Rightarrow> Tutor" where
  "save_conversations w t =
     (case w of
        WriteOk \<Rightarrow> t\<lparr>conversations_file := Json (conversations t)\<rparr>
      | WriteFails d \<Rightarrow> t\<lparr>conversations_file := d\<rparr>)"

text \<open>\<^verbatim>\<open>create_conversation\<close> (lines 148-157); \<open>new_id\<close> is \<^verbatim>\<open>str(uuid.uuid4())\<close>.\<close>

definition create_conversation :: "pystr \<Rightarrow> write_outcome \<Rightarrow> Tutor \<Rightarrow> pystr \<times> Tutor" where
  "create_conversation new_id w t =
     (new_id, save_conversations w (t\<lparr>conversations := (conversations t)(new_id \<mapsto> [])\<rparr>))"

definition role_user :: pystr where "role_user = ascii ''user''"
definition role_assistant :: pystr where "role_assistant = ascii ''assistant''"
definition role_system :: pystr where "role_system = ascii ''system''"

text \<open>
  The model gateway (the OpenAI client) is the environment. A streaming call gets the
  message list and either raises, or returns a stream: the chunks it yields and, when
  the iteration itself raises after them, that exception. A chunk is its list of
  choices, each given by its \<^verbatim>\<open>delta.content\<close> (a string or \<^verbatim>\<open>None\<close>).
\<close>

type_synonym gw_chunk = "pystr option list"

record gw_stream =
  chunks :: "gw_chunk list"
  stream_exn :: "pyexn option"

type_synonym gateway = "turn list \<Rightarrow> pyexn + gw_stream"

datatype start_result = ResponseStream gw_stream | ErrorString pystr

text \<open>The string literal of line 192, before \<^verbatim>\<open>str(e)\<close>: six CJK characters, a colon
  and a space, as code points.\<close>

definition model_call_failed :: pystr where
  "model_call_failed = [35843, 29992, 27169, 22411, 22833, 36133, 58, 32]"

text \<open>
  \<^verbatim>\<open>start_conversation\<close> (lines 159-192). The system prompt of
  \<^verbatim>\<open>_build_system_prompt\<close> is a fixed text and is taken as a parameter. The user
  turn is appended to the conversation in memory; the file is not written. The handler
  of line 191 turns an \<^verbatim>\<open>Exception\<close> of the gateway call into the returned error
  string; any other exception leaves the function (\<open>Inl\<close>).
\<close>

definition start_conversation ::
  "pystr \<Rightarrow> gateway \<Rightarrow> pystr \<Rightarrow> pystr \<Rightarrow> Tutor \<Rightarrow> (pyexn + start_result) \<times> Tutor" where
  "start_conversation system_prompt gw conversation_id user_input t =
     (let history = (case conversations t conversation_id of None \<Rightarrow> [] | Some h \<Rightarrow> h);
          history' = history @ [\<lparr>role = role_user, content = Some user_input\<rparr>];
          t' = t\<lparr>conversations := (conversations t)(conversation_id \<mapsto> history')\<rparr>;
          messages = \<lparr>role = role_system, content = Some system_prompt\<rparr> # history'
      in case gw messages of
           Inr response \<Rightarrow> (Inr (ResponseStream response), t')
         | Inl e \<Rightarrow>
             (if is_Exception e then (Inr (ErrorString (model_call_failed @ exn_str e)), t')
              else (Inl e, t')))"

text \<open>\<^verbatim>\<open>add_assistant_message\<close> (lines 194-202).\<close>

definition add_assistant_message ::
  "pystr \<Rightarrow> pystr option \<Rightarrow> write_outcome \<Rightarrow> Tutor \<Rightarrow> Tutor" where
  "add_assistant_message conversation_id reply w t =
     (case conversations t conversation_id of
        None \<Rightarrow> t
      | Some h \<Rightarrow>
          save_conversations w
            (t\<lparr>conversations :=
                 (conversations t)(conversation_id \<mapsto> h @ [\<lparr>role = role_assistant, content = reply\<rparr>])\<rparr>))"

section \<open>The event streams\<close>

text \<open>
  An event of a stream is the dictionary the generator serialises into one
  \<^verbatim>\<open>data: ...\<close> frame: \<^verbatim>\<open>{'content': s}\<close>, \<^verbatim>\<open>{'error': s}\<close> or
  \<^verbatim>\<open>{'done': True}\<close>. A stream is the list of events the generator yields and the
  exception that ends it, if one does.
\<close>

datatype StreamChunk = Content pystr | Error pystr | Done

type_synonym sse = "StreamChunk list \<times> pyexn option"

text \<open>What a handler gives: a JSON body with its status code, an event stream, or an
  exception that leaves the handler (the answer is then the web server's).\<close>

datatype http_response = JsonResponse nat pydict | EventStream sse | Unhandled pyexn

definition index_error :: pyexn where
  "index_error = PyExn ''IndexError'' (ascii ''list index out of range'')"

text \<open>
  \<^verbatim>\<open>str(KeyError(k))\<close> is \<^verbatim>\<open>repr(k)\<close>: the key between single quotes (for a key
  with no quote, backslash or unprintable character, as the identifiers here are).
\<close>

definition key_error :: "pystr \<Rightarrow> pyexn" where
  "key_error k = PyExn ''KeyError'' ([39] @ k @ [39])"

definition type_error_len_none :: pyexn where
  "type_error_len_none = PyExn ''TypeError'' (ascii ''object of type 'NoneType' has no len()'')"

text \<open>
  The loop of \<^verbatim>\<open>chat\<close>'s generator (lines 338-343): the events it yields, and the
  accumulated \<^verbatim>\<open>full_response\<close> or the exception \<^verbatim>\<open>chunk.choices[0]\<close> raises
  on a chunk with no choice.
\<close>

fun relay_chunks :: "gw_chunk list \<Rightarrow> pystr \<Rightarrow> StreamChunk list \<times> (pyexn + pystr)" where
  "relay_chunks [] full_response = ([], Inr full_response)"
| "relay_chunks (chunk # rest) full_response =
     (case chunk of
        [] \<Rightarrow> ([], Inl index_error)
      | delta # _ \<Rightarrow>
          (if truthy delta then
             (case delta of
                Some fragment \<Rightarrow>
                  (case relay_chunks rest (full_response @ fragment) of
                     (out, r) \<Rightarrow> (Content fragment # out, r))
              | None \<Rightarrow> relay_chunks rest full_response)
           else relay_chunks rest full_response))"

text \<open>The generator of \<^verbatim>\<open>chat\<close> (lines 331-351). Nothing in it catches an exception:
  one that \<^verbatim>\<open>start_conversation\<close> lets pass, or that the loop over the stream
  raises, ends the stream after the events yielded so far.\<close>

definition chat_generate ::
  "pystr \<Rightarrow> gateway \<Rightarrow> write_outcome \<Rightarrow> pystr \<Rightarrow> pystr \<Rightarrow> Tutor \<Rightarrow> sse \<times> Tutor" where
  "chat_generate system_prompt gw w conversation_id user_message t =
     (case start_conversation system_prompt gw conversation_id user_message t of
        (Inl e, t1) \<Rightarrow> (([], Some e), t1)
      | (Inr (ErrorString response), t1) \<Rightarrow> (([Error response], None), t1)
      | (Inr (ResponseStream response), t1) \<Rightarrow>
          (case relay_chunks (chunks response) [] of
             (out, Inl e) \<Rightarrow> ((out, Some e), t1)
           | (out, Inr full_response) \<Rightarrow>
               (case stream_exn response of
                  Some e \<Rightarrow> ((out, Some e), t1)
                | None \<Rightarrow>
                    (case conversations t1 conversation_id of
                       None \<Rightarrow> ((out, Some (key_error conversation_id)), t1)
                     | Some h \<Rightarrow>
                         ((out @ [Done], None),
                          save_conversations w
                            (t1\<lparr>conversations :=
                                  (conversations t1)(conversation_id \<mapsto>
                                     h @ [\<lparr>role = role_assistant, content = Some full_response\<rparr>])\<rparr>))))))"

text \<open>The message of the 400 response of line 328, as code points.\<close>

definition missing_parameters :: pystr where
  "missing_parameters = [32570, 23569, 24517, 35201, 21442, 25968]"

text \<open>
  \<^verbatim>\<open>chat\<close> (lines 318-353). The two arguments are \<^verbatim>\<open>data.get('conversation_id')\<close>
  and \<^verbatim>\<open>data.get('message')\<close>; the response is returned with status 200 and the
  generator runs while it is sent.
\<close>

definition chat ::
  "pystr \<Rightarrow> gateway \<Rightarrow> write_outcome \<Rightarrow> pystr option \<Rightarrow> pystr option \<Rightarrow> Tutor
     \<Rightarrow> http_response \<times> Tutor" where
  "chat system_prompt gw w conversation_id user_message t =
     (if \<not> truthy conversation_id \<or> \<not> truthy user_message
      then (JsonResponse 400 [''error'' \<mapsto> PStr missing_parameters], t)
      else
        (case (conversation_id, user_message) of
           (Some c, Some m) \<Rightarrow>
             (case chat_generate system_prompt gw w c m t of (s, t') \<Rightarrow> (EventStream s, t'))
         | _ \<Rightarrow> (JsonResponse 400 [''error'' \<mapsto> PStr missing_parameters], t)))"

text \<open>The three error messages of \<^verbatim>\<open>stream_analysis_result\<close> (lines 508, 514, 525).\<close>

definition conversation_missing :: pystr where
  "conversation_missing = [23545, 35805, 19981, 23384, 22312]"

definition no_analysis_result :: pystr where
  "no_analysis_result = [26242, 26080, 20998, 26512, 32467, 26524]"

definition no_ai_reply :: pystr where
  "no_ai_reply = [26242, 26080, 65, 73, 22238, 22797]"

definition chunk_size :: nat where
  "chunk_size = 50"

text \<open>
  The loop of lines 532-535, from index \<open>i\<close> on:
  \<^verbatim>\<open>for i in range(0, len(content), chunk_size): chunk = content[i:i + chunk_size]\<close>.
\<close>

function segments :: "nat \<Rightarrow> pystr \<Rightarrow> pystr list" where
  "segments i content_text =
     (if i < length content_text
      then take chunk_size (drop i content_text) # segments (i + chunk_size) content_text
      else [])"
  by pat_completeness auto
termination
  by (relation "measure (\<lambda>(i, content_text). length content_text - i)")
     (auto simp: chunk_size_def)

text \<open>
  The generator of \<^verbatim>\<open>stream_analysis_result\<close> (lines 505-537). The pacing
  \<^verbatim>\<open>time.sleep(0.1)\<close> yields nothing. \<^verbatim>\<open>len(content)\<close> raises a
  \<^verbatim>\<open>TypeError\<close> on a content that is \<^verbatim>\<open>None\<close>.
\<close>

definition stream_analysis_result :: "pystr \<Rightarrow> Tutor \<Rightarrow> sse" where
  "stream_analysis_result conversation_id t =
     (case conversations t conversation_id of
        None \<Rightarrow> ([Error conversation_missing], None)
      | Some messages \<Rightarrow>
          (if messages = [] then ([Error no_analysis_result], None)
           else
             (case find (\<lambda>msg. role msg = role_assistant) (rev messages) of
                None \<Rightarrow> ([Error no_ai_reply], None)
              | Some last_assistant_message \<Rightarrow>
                  (case content last_assistant_message of
                     None \<Rightarrow> ([], Some type_error_len_none)
                   | Some content_text \<Rightarrow>
                       (map Content (segments 0 content_text) @ [Done], None)))))"

section \<open>The job tracker\<close>

text \<open>
  \<^verbatim>\<open>TaskManager.tasks\<close> maps a task id to a dictionary object. The objects live in
  an explicit store: \<open>tasks\<close> holds references, \<open>heap\<close> holds the dictionary each
  reference points to, and \<open>next_ref\<close> is the next unused reference. So a reference
  that \<^verbatim>\<open>get_task\<close> hands out and the in-place \<^verbatim>\<open>dict.update\<close> of
  \<^verbatim>\<open>update_task\<close> meet in the same object, as they do in Python.
\<close>

record TaskManager =
  tasks :: "pystr \<rightharpoonup> nat"
  heap :: "nat \<Rightarrow> pydict"
  next_ref :: nat

text \<open>\<^verbatim>\<open>TaskManager.__init__\<close> (lines 37-40).\<close>

definition TaskManager_init :: TaskManager where
  "TaskManager_init = \<lparr>tasks = Map.empty, heap = (\<lambda>r. Map.empty), next_ref = 0\<rparr>"

text \<open>
  \<^verbatim>\<open>create_task\<close> (lines 42-56): a new dictionary object is stored under the id,
  whatever was there. The two clock readings are the two calls of \<^verbatim>\<open>time.time()\<close>.
\<close>

definition create_task ::
  "pystr \<Rightarrow> pystr \<Rightarrow> pydict \<Rightarrow> real \<Rightarrow> real \<Rightarrow> TaskManager \<Rightarrow> pystr \<times> TaskManager" where
  "create_task task_id task_type kwargs t_created t_updated m =
     (task_id,
      m\<lparr>tasks := (tasks m)(task_id \<mapsto> next_ref m),
        heap := (heap m)(next_ref m :=
          [''id'' \<mapsto> PStr task_id,
           ''type'' \<mapsto> PStr task_type,
           ''status'' \<mapsto> PStatus PENDING,
           ''progress'' \<mapsto> PInt 0,
           ''result'' \<mapsto> PNone,
           ''error'' \<mapsto> PNone,
           ''created_at'' \<mapsto> PFloat t_created,
           ''updated_at'' \<mapsto> PFloat t_updated] ++ kwargs),
        next_ref := Suc (next_ref m)\<rparr>)"

text \<open>\<^verbatim>\<open>update_task\<close> (lines 58-63): the stored object is changed in place.\<close>

definition update_task :: "pystr \<Rightarrow> pydict \<Rightarrow> real \<Rightarrow> TaskManager \<Rightarrow> TaskManager" where
  "update_task task_id updates now m =
     (case tasks m task_id of
        None \<Rightarrow> m
      | Some r \<Rightarrow> m\<lparr>heap := (heap m)(r := (heap m r ++ updates)(''updated_at'' \<mapsto> PFloat now))\<rparr>)"

text \<open>\<^verbatim>\<open>get_task\<close> (lines 65-68): the stored reference itself, or \<^verbatim>\<open>None\<close>.\<close>

definition get_task :: "pystr \<Rightarrow> TaskManager \<Rightarrow> nat option" where
  "get_task task_id m = tasks m task_id"

text \<open>The dictionary a task id stands for at the moment: the object its reference points to.\<close>

definition stored_task :: "TaskManager \<Rightarrow> pystr \<Rightarrow> pydict option" where
  "stored_task m task_id = map_option (heap m) (tasks m task_id)"

text \<open>A caller that holds a reference writes one key of the object: \<^verbatim>\<open>task[k] = v\<close>.\<close>

definition caller_sets :: "nat \<Rightarrow> string \<Rightarrow> pyval \<Rightarrow> TaskManager \<Rightarrow> TaskManager" where
  "caller_sets r k v m = m\<lparr>heap := (heap m)(r := (heap m r)(k \<mapsto> v))\<rparr>"

definition status_value :: "TaskStatus \<Rightarrow> pystr" where
  "status_value st =
     (case st of
        PENDING \<Rightarrow> ascii ''pending''
      | PROCESSING \<Rightarrow> ascii ''processing''
      | COMPLETED \<Rightarrow> ascii ''completed''
      | FAILED \<Rightarrow> ascii ''failed'')"

text \<open>The message of the 404 response of line 492, as code points.\<close>

definition task_missing :: pystr where
  "task_missing = [20219, 21153, 19981, 23384, 22312]"

text \<open>
  \<^verbatim>\<open>get_task_status\<close> (lines 485-498). The handler copies the dictionary
  (\<^verbatim>\<open>dict(task)\<close>) before it replaces the status by its label, so the tracker's state
  is not touched. \<^verbatim>\<open>.value\<close> on a status that is no \<^verbatim>\<open>TaskStatus\<close> raises, which
  Flask answers with a 500.
\<close>

definition get_task_status :: "pystr \<Rightarrow> TaskManager \<Rightarrow> http_response" where
  "get_task_status task_id m =
     (case get_task task_id m of
        None \<Rightarrow> JsonResponse 404 [''error'' \<mapsto> PStr task_missing]
      | Some r \<Rightarrow>
          (let task = heap m r in
           if task = Map.empty then JsonResponse 404 [''error'' \<mapsto> PStr task_missing]
           else
             (case task ''status'' of
                Some (PStatus st) \<Rightarrow> JsonResponse 200 (task(''status'' \<mapsto> PStr (status_value st)))
              | _ \<Rightarrow> JsonResponse 500 Map.empty)))"

record globals =
  task_manager :: TaskManager
  tutor :: Tutor

text \<open>
  A work function runs on the module's globals and returns a value or raises.
  \<^verbatim>\<open>task_wrapper\<close> (lines 72-86) is the closure \<^verbatim>\<open>submit_task\<close> hands to the
  pool; its clock readings are those of its two \<^verbatim>\<open>update_task\<close> calls. The
  handler of line 81 catches an \<^verbatim>\<open>Exception\<close>, updates the record and raises the
  exception again; any other exception passes the handler and the record is not
  touched. Either way the exception ends in the \<^verbatim>\<open>Future\<close>: \<open>Inl e\<close> below.
\<close>

type_synonym work = "globals \<Rightarrow> (pyexn + pyval) \<times> globals"

definition started :: pydict where
  "started = [''status'' \<mapsto> PStatus PROCESSING, ''progress'' \<mapsto> PInt 10]"

definition completed :: "pyval \<Rightarrow> pydict" where
  "completed res = [''status'' \<mapsto> PStatus COMPLETED, ''progress'' \<mapsto> PInt 100, ''result'' \<mapsto> res]"

definition failed :: "pyexn \<Rightarrow> pydict" where
  "failed e = [''status'' \<mapsto> PStatus FAILED, ''progress'' \<mapsto> PInt 0, ''error'' \<mapsto> PStr (exn_str e)]"

definition tracker_update :: "pystr \<Rightarrow> pydict \<Rightarrow> real \<Rightarrow> globals \<Rightarrow> globals" where
  "tracker_update task_id updates now g =
     g\<lparr>task_manager := update_task task_id updates now (task_manager g)\<rparr>"

definition task_wrapper ::
  "pystr \<Rightarrow> work \<Rightarrow> real \<Rightarrow> real \<Rightarrow> globals \<Rightarrow> (pyexn + pyval) \<times> globals" where
  "task_wrapper task_id func t_start t_end g =
     (case func (tracker_update task_id started t_start g) of
        (Inr res, g') \<Rightarrow> (Inr res, tracker_update task_id (completed res) t_end g')
      | (Inl e, g') \<Rightarrow>
          (if is_Exception e then (Inl e, tracker_update task_id (failed e) t_end g')
           else (Inl e, g')))"

text \<open>
  \<^verbatim>\<open>submit_task\<close> (lines 70-89) returns the \<^verbatim>\<open>Future\<close> of the wrapper. This is
  the run of one submitted job on its own: the outcome the \<^verbatim>\<open>Future\<close> ends with and
  the globals after it.
\<close>

definition submit_task ::
  "pystr \<Rightarrow> work \<Rightarrow> real \<Rightarrow> real \<Rightarrow> globals \<Rightarrow> (pyexn + pyval) \<times> globals" where
  "submit_task task_id func t_start t_end g = task_wrapper task_id func t_start t_end g"

section \<open>The analysis job\<close>

text \<open>
  A blocking gateway call gets the message list and either raises, or returns the
  completion, given by the \<^verbatim>\<open>message.content\<close> of each of its choices.
\<close>

type_synonym gateway_blocking = "turn list \<Rightarrow> pyexn + pystr option list"

text \<open>The string literal of line 365 before the file content, as code points.\<close>

definition analysis_request :: pystr where
  "analysis_request =
     [35831, 20998, 26512, 20197, 19979, 25945, 26448, 20869, 23481, 58, 10, 10]"

definition analysis_result :: "pystr \<Rightarrow> pystr option \<Rightarrow> pyval" where
  "analysis_result conversation_id ai_response =
     PDict [(''conversation_id'', PStr conversation_id),
            (''ai_response'', (case ai_response of None \<Rightarrow> PNone | Some a \<Rightarrow> PStr a))]"

text \<open>
  \<^verbatim>\<open>analyze_file_content_async\<close> (lines 355-404) as one function: what the
  environment gives it is the clock reading of each of its four \<^verbatim>\<open>update_task\<close>
  calls, the gateway, and the outcome of the file write of
  \<^verbatim>\<open>add_assistant_message\<close>. The handler of lines 402-404 prints the exception
  and raises it again.
\<close>

record analyze_env =
  t30 :: real
  t50 :: real
  t70 :: real
  t90 :: real
  model :: gateway_blocking
  reply_write :: write_outcome

definition analyze_file_content_async ::
  "pystr \<Rightarrow> analyze_env \<Rightarrow> pystr \<Rightarrow> pystr \<Rightarrow> pystr \<Rightarrow> work" where
  "analyze_file_content_async system_prompt e task_id conversation_id file_content g =
     (let g1 = tracker_update task_id
                 [''progress'' \<mapsto> PInt 30, ''status'' \<mapsto> PStatus PROCESSING] (t30 e) g
      in case conversations (tutor g1) conversation_id of
           None \<Rightarrow> (Inl (key_error conversation_id), g1)
         | Some h \<Rightarrow>
             (let g2 = g1\<lparr>tutor := (tutor g1)\<lparr>conversations :=
                          (conversations (tutor g1))(conversation_id \<mapsto>
                             h @ [\<lparr>role = role_user,
                                   content = Some (analysis_request @ file_content)\<rparr>])\<rparr>\<rparr>;
                  g3 = tracker_update task_id [''progress'' \<mapsto> PInt 50] (t50 e) g2
              in case conversations (tutor g3) conversation_id of
                   None \<Rightarrow> (Inl (key_error conversation_id), g3)
                 | Some h' \<Rightarrow>
                     (let messages = \<lparr>role = role_system, content = Some system_prompt\<rparr> # h';
                          g4 = tracker_update task_id [''progress'' \<mapsto> PInt 70] (t70 e) g3
                      in case model e messages of
                           Inl ex \<Rightarrow> (Inl ex, g4)
                         | Inr [] \<Rightarrow> (Inl index_error, g4)
                         | Inr (ai_response # _) \<Rightarrow>
                             (let g5 = tracker_update task_id [''progress'' \<mapsto> PInt 90] (t90 e) g4;
                                  g6 = g5\<lparr>tutor := add_assistant_message conversation_id
                                                       ai_response (reply_write e) (tutor g5)\<rparr>
                              in (Inr (analysis_result conversation_id ai_response), g6)))))"

text \<open>
  The job \<^verbatim>\<open>upload_file\<close> submits is \<^verbatim>\<open>task_wrapper\<close> around
  \<^verbatim>\<open>analyze_file_content_async\<close> (lines 355-404). Several jobs run at once on the
  pool's threads, so the same code is also given cut into its statements: a worker
  holds the arguments and the place it has reached, and one step runs one statement.
  The places, with the lines they stand before:
  \<^item> \<open>W_start\<close>: line 74; \<open>A_progress30\<close>: line 359; \<open>A_append_user\<close>: lines 362-366;
  \<^item> \<open>A_progress50\<close>: line 369; \<open>A_messages\<close>: lines 372-375;
    \<open>A_progress70\<close>: line 378, holding \<^verbatim>\<open>messages\<close>;
  \<^item> \<open>A_call\<close>: lines 381-389, holding \<^verbatim>\<open>messages\<close>; \<open>A_progress90\<close>: line 392,
    holding \<^verbatim>\<open>ai_response\<close>; \<open>A_add_reply\<close>: lines 395-400;
  \<^item> \<open>W_completed\<close>: lines 76-80, holding \<^verbatim>\<open>result\<close>; \<open>W_failed\<close>: lines 81-86,
    holding the exception that has left the work function; \<open>Finished\<close>: the wrapper
    has returned or raised into its \<^verbatim>\<open>Future\<close>.
  The handler of lines 402-404 prints an \<^verbatim>\<open>Exception\<close> and raises it again. At
  \<open>W_failed\<close> the handler of line 81 updates the record only for an
  \<^verbatim>\<open>Exception\<close>; any other exception passes it and goes to the \<^verbatim>\<open>Future\<close> with
  the record as it is.
\<close>

datatype pc =
    W_start
  | A_progress30
  | A_append_user
  | A_progress50
  | A_messages
  | A_progress70 "turn list"
  | A_call "turn list"
  | A_progress90 "pystr option"
  | A_add_reply "pystr option"
  | W_completed pyval
  | W_failed pyexn
  | Finished "pyexn + pyval"

record worker =
  w_task_id :: pystr
  w_conversation_id :: pystr
  w_file_content :: pystr
  w_pc :: pc

text \<open>What the environment gives one step: the clock, the gateway, the file write.\<close>

record step_env =
  clock :: real
  gw_blocking :: gateway_blocking
  disk_write :: write_outcome

definition worker_step :: "pystr \<Rightarrow> step_env \<Rightarrow> worker \<Rightarrow> globals \<Rightarrow> worker \<times> globals" where
  "worker_step system_prompt e w g =
     (let task_id = w_task_id w; conversation_id = w_conversation_id w in
      case w_pc w of
        W_start \<Rightarrow>
          (w\<lparr>w_pc := A_progress30\<rparr>, tracker_update task_id started (clock e) g)
      | A_progress30 \<Rightarrow>
          (w\<lparr>w_pc := A_append_user\<rparr>,
           tracker_update task_id
             [''progress'' \<mapsto> PInt 30, ''status'' \<mapsto> PStatus PROCESSING] (clock e) g)
      | A_append_user \<Rightarrow>
          (case conversations (tutor g) conversation_id of
             None \<Rightarrow> (w\<lparr>w_pc := W_failed (key_error conversation_id)\<rparr>, g)
           | Some h \<Rightarrow>
               (w\<lparr>w_pc := A_progress50\<rparr>,
                g\<lparr>tutor := (tutor g)\<lparr>conversations :=
                     (conversations (tutor g))(conversation_id \<mapsto>
                        h @ [\<lparr>role = role_user,
                              content = Some (analysis_request @ w_file_content w)\<rparr>])\<rparr>\<rparr>))
      | A_progress50 \<Rightarrow>
          (w\<lparr>w_pc := A_messages\<rparr>,
           tracker_update task_id [''progress'' \<mapsto> PInt 50] (clock e) g)
      | A_messages \<Rightarrow>
          (case conversations (tutor g) conversation_id of
             None \<Rightarrow> (w\<lparr>w_pc := W_failed (key_error conversation_id)\<rparr>, g)
           | Some h \<Rightarrow>
               (w\<lparr>w_pc := A_progress70
                    (\<lparr>role = role_system, content = Some system_prompt\<rparr> # h)\<rparr>, g))
      | A_progress70 messages \<Rightarrow>
          (w\<lparr>w_pc := A_call messages\<rparr>,
           tracker_update task_id [''progress'' \<mapsto> PInt 70] (clock e) g)
      | A_call messages \<Rightarrow>
          (case gw_blocking e messages of
             Inl ex \<Rightarrow> (w\<lparr>w_pc := W_failed ex\<rparr>, g)
           | Inr [] \<Rightarrow> (w\<lparr>w_pc := W_failed index_error\<rparr>, g)
           | Inr (ai_response # _) \<Rightarrow> (w\<lparr>w_pc := A_progress90 ai_response\<rparr>, g))
      | A_progress90 ai_response \<Rightarrow>
          (w\<lparr>w_pc := A_add_reply ai_response\<rparr>,
           tracker_update task_id [''progress'' \<mapsto> PInt 90] (clock e) g)
      | A_add_reply ai_response \<Rightarrow>
          (w\<lparr>w_pc := W_completed (analysis_result conversation_id ai_response)\<rparr>,
           g\<lparr>tutor := add_assistant_message conversation_id ai_response (disk_write e) (tutor g)\<rparr>)
      | W_completed res \<Rightarrow>
          (w\<lparr>w_pc := Finished (Inr res)\<rparr>, tracker_update task_id (completed res) (clock e) g)
      | W_failed ex \<Rightarrow>
          (if is_Exception ex
           then (w\<lparr>w_pc := Finished (Inl ex)\<rparr>,
                 tracker_update task_id (failed ex) (clock e) g)
           else (w\<lparr>w_pc := Finished (Inl ex)\<rparr>, g))
      | Finished r \<Rightarrow> (w, g))"

text \<open>A worker run for as many steps as there are environments, nothing happening in
  between; and the environment of the whole-function form that gives every step the
  same clock, gateway and write outcome.\<close>

primrec run_worker :: "pystr \<Rightarrow> step_env list \<Rightarrow> worker \<Rightarrow> globals \<Rightarrow> worker \<times> globals" where
  "run_worker system_prompt [] w g = (w, g)"
| "run_worker system_prompt (e # es) w g =
     (case worker_step system_prompt e w g of (w', g') \<Rightarrow> run_worker system_prompt es w' g')"

definition env_of :: "step_env \<Rightarrow> analyze_env" where
  "env_of e = \<lparr>t30 = clock e, t50 = clock e, t70 = clock e, t90 = clock e,
              model = gw_blocking e, reply_write = disk_write e\<rparr>"

section \<open>The upload handler\<close>

definition ALLOWED_EXTENSIONS :: "pystr set" where
  "ALLOWED_EXTENSIONS =
     {ascii ''txt'', ascii ''pdf'', ascii ''docx'', ascii ''doc'', ascii ''md''}"

text \<open>
  \<^verbatim>\<open>str.lower\<close> on the letters A-Z. (Python also lowers letters outside ASCII; none
  of them becomes a letter of an allowed extension.)
\<close>

definition lower :: "pystr \<Rightarrow> pystr" where
  "lower s = map (\<lambda>c. if 65 \<le> c \<and> c \<le> 90 then c + 32 else c) s"

text \<open>\<^verbatim>\<open>allowed_file\<close> (lines 94-97); code point 46 is the dot, and
  \<^verbatim>\<open>filename.rsplit('.', 1)[1]\<close> is what follows the last dot.\<close>

definition allowed_file :: "pystr \<Rightarrow> bool" where
  "allowed_file filename \<longleftrightarrow>
     46 \<in> set filename \<and> lower (rev (takeWhile (\<lambda>c. c \<noteq> 46) (rev filename))) \<in> ALLOWED_EXTENSIONS"

text \<open>The expression of line 465:
  \<^verbatim>\<open>file_content[:500] + '...' if len(file_content) > 500 else file_content\<close>.\<close>

definition content_preview :: "pystr \<Rightarrow> pystr" where
  "content_preview file_content =
     (if length file_content > 500 then take 500 file_content @ ascii ''...'' else file_content)"

text \<open>The message literals of \<^verbatim>\<open>upload_file\<close> (lines 413, 417, 421, 461, 473, 483), as
  code points.\<close>

definition no_file :: pystr where
  "no_file = [27809, 26377, 25991, 20214]"

definition no_file_selected :: pystr where
  "no_file_selected = [27809, 26377, 36873, 25321, 25991, 20214]"

definition unsupported_type :: pystr where
  "unsupported_type =
     [19981, 25903, 25345, 30340, 25991, 20214, 31867, 22411, 12290, 25903, 25345, 30340,
      31867, 22411, 58, 32]"

definition uploaded_analyzing :: pystr where
  "uploaded_analyzing =
     [25991, 20214, 19978, 20256, 25104, 21151, 65292, 27491, 22312, 20998, 26512, 20013]"

definition uploaded_no_text :: pystr where
  "uploaded_no_text =
     [25991, 20214, 19978, 20256, 25104, 21151, 65292, 20294, 26410, 33021, 25552, 21462,
      21040, 25991, 26412, 20869, 23481]"

definition upload_failed :: pystr where
  "upload_failed = [25991, 20214, 19978, 20256, 22833, 36133, 58, 32]"

text \<open>
  What the environment gives one upload: the name \<^verbatim>\<open>secure_filename\<close> returns, the
  three fresh uuids, the upload folder, whether \<^verbatim>\<open>file.save\<close> raises, the text
  \<^verbatim>\<open>extract_text_from_file\<close> returns, the size of the stored file, the outcome of
  writing the conversations file, the two clock readings of \<^verbatim>\<open>create_task\<close>, and
  the text of \<^verbatim>\<open>", ".join(ALLOWED_EXTENSIONS)\<close> (a set has no fixed order).
\<close>

record upload_env =
  secure_name :: pystr
  uuid_file :: pystr
  uuid_conversation :: pystr
  uuid_task :: pystr
  upload_folder :: pystr
  save_raises :: "pyexn option"
  extracted_text :: "pystr option"
  file_size :: int
  conversation_write :: write_outcome
  t_created :: real
  t_updated :: real
  extensions_listing :: pystr

text \<open>
  \<^verbatim>\<open>upload_file\<close> (lines 406-483). The argument is the file name of the part
  \<^verbatim>\<open>'file'\<close> of the request, if there is one. Beside the response and the globals
  the function gives the job it has handed to the pool, if any. Code points 95 and 47
  are the underscore and the slash. The handler of line 482 answers an
  \<^verbatim>\<open>Exception\<close> of \<^verbatim>\<open>file.save\<close> with the 500 response; any other exception
  leaves the function.
\<close>

definition upload_file ::
  "pystr option \<Rightarrow> upload_env \<Rightarrow> globals \<Rightarrow> http_response \<times> globals \<times> worker option" where
  "upload_file file_name u g =
     (case file_name of
        None \<Rightarrow> (JsonResponse 400 [''error'' \<mapsto> PStr no_file], g, None)
      | Some name \<Rightarrow>
          if name = [] then (JsonResponse 400 [''error'' \<mapsto> PStr no_file_selected], g, None)
          else if \<not> allowed_file name
          then (JsonResponse 400 [''error'' \<mapsto> PStr (unsupported_type @ extensions_listing u)],
                g, None)
          else
            (let filename = uuid_file u @ [95] @ secure_name u;
                 file_path = upload_folder u @ [47] @ filename
             in case save_raises u of
                  Some e \<Rightarrow>
                    (if is_Exception e
                     then (JsonResponse 500 [''error'' \<mapsto> PStr (upload_failed @ exn_str e)],
                           g, None)
                     else (Unhandled e, g, None))
                | None \<Rightarrow>
                    (let file_content = extracted_text u;
                         conversation_id = uuid_conversation u;
                         g1 = g\<lparr>tutor := snd (create_conversation conversation_id
                                                 (conversation_write u) (tutor g))\<rparr>;
                         task_id = uuid_task u
                     in if truthy file_content \<and> truthy (map_option strip file_content)
                        then
                          (JsonResponse 200
                             [''message'' \<mapsto> PStr uploaded_analyzing,
                              ''filename'' \<mapsto> PStr filename,
                              ''size'' \<mapsto> PInt (file_size u),
                              ''path'' \<mapsto> PStr file_path,
                              ''content_preview'' \<mapsto>
                                 PStr (content_preview (case file_content of Some c \<Rightarrow> c | None \<Rightarrow> [])),
                              ''conversation_id'' \<mapsto> PStr conversation_id,
                              ''task_id'' \<mapsto> PStr task_id,
                              ''has_content'' \<mapsto> PBool True,
                              ''status'' \<mapsto> PStr (ascii ''processing'')],
                           g1\<lparr>task_manager :=
                                snd (create_task task_id (ascii ''file_analysis'')
                                       [''filename'' \<mapsto> PStr filename,
                                        ''conversation_id'' \<mapsto> PStr conversation_id,
                                        ''file_size'' \<mapsto> PInt (file_size u)]
                                       (t_created u) (t_updated u) (task_manager g1))\<rparr>,
                           Some \<lparr>w_task_id = task_id, w_conversation_id = conversation_id,
                                 w_file_content = (case file_content of Some c \<Rightarrow> c | None \<Rightarrow> []),
                                 w_pc = W_start\<rparr>)
                        else
                          (JsonResponse 200
                             [''message'' \<mapsto> PStr uploaded_no_text,
                              ''filename'' \<mapsto> PStr filename,
                              ''size'' \<mapsto> PInt (file_size u),
                              ''path'' \<mapsto> PStr file_path,
                              ''conversation_id'' \<mapsto> PStr conversation_id,
                              ''has_content'' \<mapsto> PBool False,
                              ''status'' \<mapsto> PStr (ascii ''completed'')],
                           g1, None))))"

section \<open>The running server\<close>

text \<open>
  The server's state is the globals and the jobs handed to the pool. One step of the
  server is one of:
  \<^item> an upload, whose task uuid is new to the tracker (\<^verbatim>\<open>uuid.uuid4()\<close> is taken
    not to repeat); it is one step, since until \<^verbatim>\<open>submit_task\<close> no other thread
    knows the new task id;
  \<^item> one step of one job of the pool (the pool runs at most three at a time; any
    others wait at \<open>W_start\<close>, which this relation allows too);
  \<^item> anything the other handlers do (\<^verbatim>\<open>new_conversation\<close>, \<^verbatim>\<open>chat\<close>,
    \<^verbatim>\<open>get_task_status\<close>, \<^verbatim>\<open>stream_analysis_result\<close>): they read the tracker and
    write only the tutor.
\<close>

record server =
  mem :: globals
  pool :: "worker list"

inductive server_step :: "pystr \<Rightarrow> server \<Rightarrow> server \<Rightarrow> bool" for system_prompt :: pystr where
  upload:
    "upload_file file_name u (mem s) = (resp, g', job) \<Longrightarrow>
     tasks (task_manager (mem s)) (uuid_task u) = None \<Longrightarrow>
     server_step system_prompt s
       \<lparr>mem = g', pool = pool s @ (case job of None \<Rightarrow> [] | Some w \<Rightarrow> [w])\<rparr>"
| work:
    "i < length (pool s) \<Longrightarrow>
     worker_step system_prompt e (pool s ! i) (mem s) = (w', g') \<Longrightarrow>
     server_step system_prompt s \<lparr>mem = g', pool = (pool s)[i := w']\<rparr>"
| other:
    "task_manager g' = task_manager (mem s) \<Longrightarrow>
     server_step system_prompt s \<lparr>mem = g', pool = pool s\<rparr>"

text \<open>The states the server reaches from its start: an empty tracker, the conversations
  loaded from the file, no job.\<close>

inductive reachable :: "pystr \<Rightarrow> server \<Rightarrow> bool" for system_prompt :: pystr where
  start:
    "reachable system_prompt \<lparr>mem = \<lparr>task_manager = TaskManager_init, tutor = t0\<rparr>, pool = []\<rparr>"
| step:
    "reachable system_prompt s \<Longrightarrow> server_step system_prompt s s' \<Longrightarrow>
     reachable system_prompt s'"

section \<open>Reading responses and records\<close>

text \<open>The status code and one field of a JSON response; one field of the record a task
  id stands for; the transcript of a conversation (empty when the id is unknown); and the
  three kinds of turn.\<close>

definition response_code :: "http_response \<Rightarrow> nat option" where
  "response_code r =
     (case r of JsonResponse code body \<Rightarrow> Some code | EventStream s \<Rightarrow> None | Unhandled e \<Rightarrow> None)"

definition response_field :: "http_response \<Rightarrow> string \<Rightarrow> pyval option" where
  "response_field r k =
     (case r of JsonResponse code body \<Rightarrow> body k | EventStream s \<Rightarrow> None | Unhandled e \<Rightarrow> None)"

definition job_field :: "TaskManager \<Rightarrow> pystr \<Rightarrow> string \<Rightarrow> pyval option" where
  "job_field m task_id k = (case stored_task m task_id of None \<Rightarrow> None | Some d \<Rightarrow> d k)"

definition history_of :: "Tutor \<Rightarrow> pystr \<Rightarrow> turn list" where
  "history_of t conversation_id = (case conversations t conversation_id of None \<Rightarrow> [] | Some h \<Rightarrow> h)"

definition user_turn :: "pystr \<Rightarrow> turn" where
  "user_turn s = \<lparr>role = role_user, content = Some s\<rparr>"

definition assistant_turn :: "pystr \<Rightarrow> turn" where
  "assistant_turn s = \<lparr>role = role_assistant, content = Some s\<rparr>"

definition system_turn :: "pystr \<Rightarrow> turn" where
  "system_turn s = \<lparr>role = role_system, content = Some s\<rparr>"

section \<open>The properties\<close>

text \<open>
  The fragments of a gateway stream that carry text: of every chunk the
  \<^verbatim>\<open>delta.content\<close> of its first choice, when that is a string and not empty, in
  the order of the chunks.
\<close>

definition fragments_of :: "gw_chunk list \<Rightarrow> pystr list" where
  "fragments_of cs =
     filter (\<lambda>f. f \<noteq> []) (concat (map (\<lambda>c. case c of Some f # _ \<Rightarrow> [f] | _ \<Rightarrow> []) cs))"

text \<open>
  A value is set when it is there and is not \<^verbatim>\<open>None\<close>. A work function keeps the
  outcome fields of a job when it leaves the job in the tracker and does not write its
  \<^verbatim>\<open>result\<close> and \<^verbatim>\<open>error\<close> (it may report progress).
\<close>

definition is_set :: "pyval option \<Rightarrow> bool" where
  "is_set v \<longleftrightarrow> v \<noteq> None \<and> v \<noteq> Some PNone"

definition keeps_outcome_fields :: "pystr \<Rightarrow> work \<Rightarrow> bool" where
  "keeps_outcome_fields task_id func \<longleftrightarrow>
     (\<forall>g d. stored_task (task_manager g) task_id = Some d \<longrightarrow>
        (\<exists>d'. stored_task (task_manager (snd (func g))) task_id = Some d'
           \<and> d' ''result'' = d ''result'' \<and> d' ''error'' = d ''error''))"

text \<open>
  The life cycle of a job: the status changes only from \<open>PENDING\<close> to \<open>PROCESSING\<close>
  and from \<open>PROCESSING\<close> to \<open>COMPLETED\<close> or \<open>FAILED\<close>. \<open>has d st p\<close> reads
  status and progress of a record. \<open>job_step_ok d d'\<close> is what one step of the server
  may do to a record: the status stays or changes along the life cycle, a terminal status
  stays, the progress is an integer from 0 to 100 before and after, and between two
  \<open>PROCESSING\<close> records the progress does not decrease.
\<close>

definition lifecycle :: "TaskStatus \<Rightarrow> TaskStatus \<Rightarrow> bool" where
  "lifecycle a b \<longleftrightarrow>
     (a = PENDING \<and> b = PROCESSING) \<or> (a = PROCESSING \<and> (b = COMPLETED \<or> b = FAILED))"

definition has :: "pydict \<Rightarrow> TaskStatus \<Rightarrow> int \<Rightarrow> bool" where
  "has d st p \<longleftrightarrow> d ''status'' = Some (PStatus st) \<and> d ''progress'' = Some (PInt p)"

definition job_step_ok :: "pydict \<Rightarrow> pydict \<Rightarrow> bool" where
  "job_step_ok d d' \<longleftrightarrow>
     (\<exists>st p st' p'. has d st p \<and> has d' st' p'
        \<and> (st' = st \<or> lifecycle st st')
        \<and> (st = COMPLETED \<or> st = FAILED \<longrightarrow> st' = st)
        \<and> 0 \<le> p \<and> p \<le> 100 \<and> 0 \<le> p' \<and> p' \<le> 100
        \<and> (st = PROCESSING \<and> st' = PROCESSING \<longrightarrow> p \<le> p'))"

text \<open>
  The invariant of the running server. The tracker is well formed: two task ids never
  share a dictionary object, and every reference in use is below \<open>next_ref\<close>. The
  task ids of the tracker are those of the jobs of the pool, no two jobs have the same
  id, and the record of every job shows the status and progress of the place the job
  has reached.
\<close>

definition wf_tracker :: "TaskManager \<Rightarrow> bool" where
  "wf_tracker m \<longleftrightarrow>
     (\<forall>a b r. tasks m a = Some r \<and> tasks m b = Some r \<longrightarrow> a = b)
     \<and> (\<forall>a r. tasks m a = Some r \<longrightarrow> r < next_ref m)"

fun at_place :: "pc \<Rightarrow> pydict \<Rightarrow> bool" where
  "at_place W_start d = has d PENDING 0"
| "at_place A_progress30 d = has d PROCESSING 10"
| "at_place A_append_user d = has d PROCESSING 30"
| "at_place A_progress50 d = has d PROCESSING 30"
| "at_place A_messages d = has d PROCESSING 50"
| "at_place (A_progress70 messages) d = has d PROCESSING 50"
| "at_place (A_call messages) d = has d PROCESSING 70"
| "at_place (A_progress90 ai_response) d = has d PROCESSING 70"
| "at_place (A_add_reply ai_response) d = has d PROCESSING 90"
| "at_place (W_completed res) d = has d PROCESSING 90"
| "at_place (W_failed ex) d = (has d PROCESSING 30 \<or> has d PROCESSING 50 \<or> has d PROCESSING 70)"
| "at_place (Finished (Inr res)) d = has d COMPLETED 100"
| "at_place (Finished (Inl ex)) d =
     (if is_Exception ex then has d FAILED 0
      else (has d PROCESSING 30 \<or> has d PROCESSING 50 \<or> has d PROCESSING 70))"

definition server_inv :: "server \<Rightarrow> bool" where
  "server_inv s \<longleftrightarrow>
     wf_tracker (task_manager (mem s))
     \<and> distinct (map w_task_id (pool s))
     \<and> dom (tasks (task_manager (mem s))) = w_task_id ` set (pool s)
     \<and> (\<forall>w\<in>set (pool s). \<exists>d. stored_task (task_manager (mem s)) (w_task_id w) = Some d
            \<and> at_place (w_pc w) d)"

section \<open>Example data\<close>

text \<open>A tutor with one empty conversation \<^verbatim>\<open>c1\<close> that is on file; three streaming
  gateways: one streaming four chunks, one whose call raises, and one whose call returns a
  stream that raises at the first read; two blocking gateways: one whose completion has
  \<^verbatim>\<open>message.content\<close> \<^verbatim>\<open>None\<close> and one whose call raises
  \<^verbatim>\<open>SystemExit\<close>; a work function that returns \<^verbatim>\<open>None\<close>; an upload
  of a text file; a tracker with one fresh job \<^verbatim>\<open>t1\<close>; and the server before the
  upload, after it, and after the first step of the job.\<close>

definition demo_tutor :: Tutor where
  "demo_tutor =
     \<lparr>conversations = [ascii ''c1'' \<mapsto> []], conversations_file = Json [ascii ''c1'' \<mapsto> []]\<rparr>"

definition demo_stream_gateway :: gateway where
  "demo_stream_gateway messages =
     Inr \<lparr>chunks = [[Some (ascii ''Hel'')], [None], [Some []], [Some (ascii ''lo'')]],
          stream_exn = None\<rparr>"

definition demo_failing_gateway :: gateway where
  "demo_failing_gateway messages = Inl (PyExn ''APIConnectionError'' (ascii ''Connection error.''))"

definition demo_broken_stream_gateway :: gateway where
  "demo_broken_stream_gateway messages =
     Inr \<lparr>chunks = [],
          stream_exn = Some (PyExn ''APIConnectionError'' (ascii ''Connection error.''))\<rparr>"

definition demo_silent_model :: gateway_blocking where
  "demo_silent_model messages = Inr [None]"

definition demo_exiting_model :: gateway_blocking where
  "demo_exiting_model messages = Inl (PyBaseExn ''SystemExit'' [])"

definition demo_work_none :: work where
  "demo_work_none g = (Inr PNone, g)"

definition demo_upload :: "pystr option \<Rightarrow> upload_env" where
  "demo_upload extracted =
     \<lparr>secure_name = ascii ''notes.txt'', uuid_file = ascii ''u1'', uuid_conversation = ascii ''c1'',
      uuid_task = ascii ''t1'', upload_folder = ascii ''uploads'', save_raises = None,
      extracted_text = extracted, file_size = 501, conversation_write = WriteOk,
      t_created = 1, t_updated = 1, extensions_listing = ascii ''txt, pdf, docx, doc, md''\<rparr>"

definition demo_globals :: globals where
  "demo_globals =
     \<lparr>task_manager = TaskManager_init,
      tutor = \<lparr>conversations = Map.empty, conversations_file = NoFile\<rparr>\<rparr>"

definition demo_tracker :: TaskManager where
  "demo_tracker = snd (create_task (ascii ''t1'') (ascii ''file_analysis'') Map.empty 1 1 TaskManager_init)"

definition demo_analyze_env :: "gateway_blocking \<Rightarrow> analyze_env" where
  "demo_analyze_env m = \<lparr>t30 = 3, t50 = 4, t70 = 5, t90 = 6, model = m, reply_write = WriteOk\<rparr>"

definition demo_server_globals :: globals where
  "demo_server_globals = \<lparr>task_manager = demo_tracker, tutor = demo_tutor\<rparr>"

definition demo_step_env :: step_env where
  "demo_step_env = \<lparr>clock = 2, gw_blocking = (\<lambda>messages. Inr [Some (ascii ''plan'')]),
                    disk_write = WriteOk\<rparr>"

definition demo_server0 :: server where
  "demo_server0 = \<lparr>mem = \<lparr>task_manager = TaskManager_init, tutor = demo_tutor\<rparr>, pool = []\<rparr>"

definition demo_server1 :: server where
  "demo_server1 =
     (case upload_file (Some (ascii ''a.txt'')) (demo_upload (Some (ascii ''Hello world'')))
             (mem demo_server0) of
        (resp, g', job) \<Rightarrow>
          \<lparr>mem = g', pool = pool demo_server0 @ (case job of None \<Rightarrow> [] | Some w \<Rightarrow> [w])\<rparr>)"

definition demo_server2 :: server where
  "demo_server2 =
     (case worker_step [] demo_step_env (pool demo_server1 ! 0) (mem demo_server1) of
        (w', g') \<Rightarrow> \<lparr>mem = g', pool = (pool demo_server1)[0 := w']\<rparr>)"

section \<open>Replaying a stored reply\<close>

declare segments.simps [simp del]

lemma segments_step:
  "i < length s \<Longrightarrow> segments i s = take chunk_size (drop i s) # segments (i + chunk_size) s"
  by (subst segments.simps) simp

lemma segments_stop: "\<not> i < length s \<Longrightarrow> segments i s = []"
  by (subst segments.simps) simp

lemma segments_concat: "concat (segments i s) = drop i s"
proof (induction i s rule: segments.induct)
  case (1 i s)
  show ?case
  proof (cases "i < length s")
    case True
    then have "concat (segments i s) = take chunk_size (drop i s) @ drop (i + chunk_size) s"
      using 1 by (simp add: segments_step)
    also have "\<dots> = take chunk_size (drop i s) @ drop chunk_size (drop i s)"
      by (simp add: add.commute)
    also have "\<dots> = drop i s"
      by (rule append_take_drop_id)
    finally show ?thesis .
  next
    case False
    then show ?thesis by (simp add: segments_stop)
  qed
qed

lemma div_step:
  assumes "i < n"
  shows "Suc ((n - (i + 50) + 49) div 50) = (n - i + 49) div (50::nat)"
proof (cases "n - i < 50")
  case True
  then have a: "n - (i + 50) = 0" by simp
  have "(n - i + 49) div 50 = 1"
    using True assms by (intro div_nat_eqI) simp_all
  then show ?thesis using a by simp
next
  case False
  then have "n - i + 49 = (n - (i + 50) + 49) + 50" by simp
  then have "(n - i + 49) div 50 = (n - (i + 50) + 49) div 50 + 1"
    by (metis div_add_self2 zero_neq_numeral)
  then show ?thesis by simp
qed

lemma segments_length: "length (segments i s) = (length s - i + 49) div 50"
proof (induction i s rule: segments.induct)
  case (1 i s)
  show ?case
  proof (cases "i < length s")
    case True
    then have "length (segments i s) = Suc ((length s - (i + 50) + 49) div 50)"
      using 1 by (simp add: segments_step chunk_size_def)
    also have "\<dots> = (length s - i + 49) div 50"
      using True by (rule div_step)
    finally show ?thesis .
  next
    case False
    then show ?thesis by (simp add: segments_stop)
  qed
qed

lemma segments_nth:
  "k < length (segments i s) \<Longrightarrow> segments i s ! k = take 50 (drop (i + 50 * k) s)"
proof (induction i s arbitrary: k rule: segments.induct)
  case (1 i s)
  show ?case
  proof (cases "i < length s")
    case True
    note lt = True
    show ?thesis
    proof (cases k)
      case 0
      then show ?thesis using lt by (simp add: segments_step chunk_size_def)
    next
      case (Suc j)
      have "j < length (segments (i + chunk_size) s)"
        using "1.prems" lt Suc by (simp add: segments_step)
      then have "segments (i + chunk_size) s ! j = take 50 (drop (i + chunk_size + 50 * j) s)"
        using "1.IH" lt by simp
      then show ?thesis using lt Suc by (simp add: segments_step chunk_size_def add.assoc)
    qed
  next
    case False
    then show ?thesis using "1.prems" by (simp add: segments_stop)
  qed
qed

lemma segments_sizes:
  "(\<forall>x\<in>set (segments i s). x \<noteq> [] \<and> length x \<le> 50)
   \<and> (\<forall>x\<in>set (butlast (segments i s)). length x = 50)"
proof (induction i s rule: segments.induct)
  case (1 i s)
  show ?case
  proof (cases "i < length s")
    case True
    note lt = True
    have e: "segments i s = take chunk_size (drop i s) # segments (i + chunk_size) s"
      using lt by (rule segments_step)
    have a: "take chunk_size (drop i s) \<noteq> [] \<and> length (take chunk_size (drop i s)) \<le> 50"
      using lt by (simp add: chunk_size_def)
    have b: "length (take chunk_size (drop i s)) = 50" if "segments (i + chunk_size) s \<noteq> []"
    proof -
      have "i + chunk_size < length s"
        using that segments_stop [of "i + chunk_size" s] by blast
      then show ?thesis by (simp add: chunk_size_def)
    qed
    show ?thesis
      unfolding e using "1.IH" [OF lt] a b by (auto simp: butlast.simps(2))
  next
    case False
    then show ?thesis by (simp add: segments_stop)
  qed
qed

lemma find_app: "find P (xs @ ys) = (case find P xs of None \<Rightarrow> find P ys | Some x \<Rightarrow> Some x)"
  by (induction xs) auto

lemma find_none: "(\<forall>m\<in>set xs. \<not> P m) \<Longrightarrow> find P xs = None"
  by (induction xs) auto

lemma find_last:
  "P a \<Longrightarrow> \<forall>m\<in>set post. \<not> P m \<Longrightarrow> find P (rev (pre @ a # post)) = Some a"
  by (simp add: find_app find_none)

text \<open>
  What the replay gives for a reply that is a text. When the transcript of the
  conversation has an assistant turn, and the most
  recent one (no assistant turn after it) holds a text, the stream of
  \<^verbatim>\<open>GET /analyze-stream/<conversation_id>\<close> is the content events of the segments
  of that text followed by one \<open>Done\<close>, and nothing else. The segments concatenate to
  the text; a text of \<open>n\<close> characters has \<open>(n + 49) div 50\<close> of them, and the
  \<open>k\<close>-th is the 50 characters from position \<open>50 * k\<close> on (as many as there
  are). No segment is empty or longer than 50 characters, and every segment but the last
  has exactly 50.
\<close>

lemma replay_segments:
  assumes "conversations t conversation_id = Some (earlier @ a # later)"
    and "role a = role_assistant"
    and "\<forall>m\<in>set later. role m \<noteq> role_assistant"
    and "content a = Some reply"
  shows "stream_analysis_result conversation_id t = (map Content (segments 0 reply) @ [Done], None)
     \<and> concat (segments 0 reply) = reply
     \<and> length (segments 0 reply) = (length reply + 49) div 50
     \<and> (\<forall>k<length (segments 0 reply). segments 0 reply ! k = take 50 (drop (50 * k) reply))
     \<and> (\<forall>x\<in>set (segments 0 reply). x \<noteq> [] \<and> length x \<le> 50)
     \<and> (\<forall>x\<in>set (butlast (segments 0 reply)). length x = 50)"
proof -
  have "find (\<lambda>msg. role msg = role_assistant) (rev (earlier @ a # later)) = Some a"
    using assms(2,3) by (intro find_last) simp_all
  then have "stream_analysis_result conversation_id t = (map Content (segments 0 reply) @ [Done], None)"
    using assms(1,4) by (simp add: stream_analysis_result_def)
  moreover have "concat (segments 0 reply) = reply"
    by (simp add: segments_concat)
  moreover have "length (segments 0 reply) = (length reply + 49) div 50"
    by (simp add: segments_length)
  moreover have "\<forall>k<length (segments 0 reply). segments 0 reply ! k = take 50 (drop (50 * k) reply)"
    using segments_nth [of _ 0 reply] by simp
  moreover note segments_sizes [of 0 reply]
  ultimately show ?thesis by blast
qed

lemma replay_segments_example:
  "stream_analysis_result (ascii ''c1'')
     \<lparr>conversations = [ascii ''c1'' \<mapsto>
        [\<lparr>role = role_user, content = Some (ascii ''hi'')\<rparr>,
         \<lparr>role = role_assistant, content = Some (replicate 120 97)\<rparr>,
         \<lparr>role = role_user, content = Some (ascii ''more'')\<rparr>]],
      conversations_file = NoFile\<rparr>
   = ([Content (replicate 50 97), Content (replicate 50 97), Content (replicate 20 97), Done], None)"
proof -
  have r: "role_user \<noteq> role_assistant"
    by (simp add: role_user_def role_assistant_def ascii_def)
  have s: "segments 0 (replicate 120 (97::nat)) = [replicate 50 97, replicate 50 97, replicate 20 97]"
    by (simp add: segments_step segments_stop chunk_size_def)
  show ?thesis
    using replay_segments
      [of "\<lparr>conversations = [ascii ''c1'' \<mapsto>
             [\<lparr>role = role_user, content = Some (ascii ''hi'')\<rparr>,
              \<lparr>role = role_assistant, content = Some (replicate 120 97)\<rparr>,
              \<lparr>role = role_user, content = Some (ascii ''more'')\<rparr>]],
            conversations_file = NoFile\<rparr>"
          "ascii ''c1''"
          "[\<lparr>role = role_user, content = Some (ascii ''hi'')\<rparr>]"
          "\<lparr>role = role_assistant, content = Some (replicate 120 97)\<rparr>"
          "[\<lparr>role = role_user, content = Some (ascii ''more'')\<rparr>]"
          "replicate 120 97"] r s
    by simp
qed

text \<open>
  Claim C4 fails for an assistant turn whose content is \<^verbatim>\<open>None\<close>. Line 389 takes
  \<^verbatim>\<open>message.content\<close> of the completion, which is \<^verbatim>\<open>None\<close> when the model
  returns no text, and line 395 stores it as the content of an assistant turn without a
  check. For such a transcript \<^verbatim>\<open>len(content)\<close> of line 532 raises a
  \<^verbatim>\<open>TypeError\<close>: the stream of \<^verbatim>\<open>GET /analyze-stream/<conversation_id>\<close> has
  no content event and no \<open>Done\<close>, and ends with the exception. Here the transcript
  is the one the program itself produces: the job \<^verbatim>\<open>t1\<close> runs
  \<^verbatim>\<open>analyze_file_content_async\<close> on the empty conversation \<^verbatim>\<open>c1\<close> with a
  gateway whose completion has the content \<^verbatim>\<open>None\<close>; the job ends \<open>COMPLETED\<close>,
  the transcript is the user turn and an assistant turn with content \<^verbatim>\<open>None\<close>, and
  the replay of \<^verbatim>\<open>c1\<close> raises.
\<close>

theorem replay_none_content:
  "fst (submit_task (ascii ''t1'')
          (analyze_file_content_async system_prompt (demo_analyze_env demo_silent_model)
             (ascii ''t1'') (ascii ''c1'') file_content)
          2 7 demo_server_globals)
     = Inr (analysis_result (ascii ''c1'') None)
   \<and> job_field (task_manager (snd (submit_task (ascii ''t1'')
          (analyze_file_content_async system_prompt (demo_analyze_env demo_silent_model)
             (ascii ''t1'') (ascii ''c1'') file_content)
          2 7 demo_server_globals))) (ascii ''t1'') ''status'' = Some (PStatus COMPLETED)
   \<and> conversations (tutor (snd (submit_task (ascii ''t1'')
          (analyze_file_content_async system_prompt (demo_analyze_env demo_silent_model)
             (ascii ''t1'') (ascii ''c1'') file_content)
          2 7 demo_server_globals))) (ascii ''c1'')
       = Some [\<lparr>role = role_user, content = Some (analysis_request @ file_content)\<rparr>,
               \<lparr>role = role_assistant, content = None\<rparr>]
   \<and> stream_analysis_result (ascii ''c1'') (tutor (snd (submit_task (ascii ''t1'')
          (analyze_file_content_async system_prompt (demo_analyze_env demo_silent_model)
             (ascii ''t1'') (ascii ''c1'') file_content)
          2 7 demo_server_globals)))
       = ([], Some type_error_len_none)"
proof -
  let ?job = "submit_task (ascii ''t1'')
          (analyze_file_content_async system_prompt (demo_analyze_env demo_silent_model)
             (ascii ''t1'') (ascii ''c1'') file_content)
          2 7 demo_server_globals"
  let ?h = "[\<lparr>role = role_user, content = Some (analysis_request @ file_content)\<rparr>,
             \<lparr>role = role_assistant, content = None\<rparr>]"
  have u: "tutor (g\<lparr>task_manager := m\<rparr>) = tutor g" for g :: globals and m
    by simp
  have c: "conversations (tutor demo_server_globals) (ascii ''c1'') = Some []"
    by (simp add: demo_server_globals_def demo_tutor_def)
  have r: "fst ?job = Inr (analysis_result (ascii ''c1'') None)"
    by (simp add: submit_task_def task_wrapper_def analyze_file_content_async_def Let_def
        tracker_update_def u c demo_analyze_env_def demo_silent_model_def)
  have t: "conversations (tutor (snd ?job)) (ascii ''c1'') = Some ?h"
    by (simp add: submit_task_def task_wrapper_def analyze_file_content_async_def Let_def
        tracker_update_def u c demo_analyze_env_def demo_silent_model_def
        add_assistant_message_def save_conversations_def)
  have m: "task_manager (snd ?job) =
      update_task (ascii ''t1'') (completed (analysis_result (ascii ''c1'') None)) 7
        (update_task (ascii ''t1'') [''progress'' \<mapsto> PInt 90] 6
          (update_task (ascii ''t1'') [''progress'' \<mapsto> PInt 70] 5
            (update_task (ascii ''t1'') [''progress'' \<mapsto> PInt 50] 4
              (update_task (ascii ''t1'')
                 [''progress'' \<mapsto> PInt 30, ''status'' \<mapsto> PStatus PROCESSING] 3
                 (update_task (ascii ''t1'') started 2 demo_tracker)))))"
    by (simp add: submit_task_def task_wrapper_def analyze_file_content_async_def Let_def
        tracker_update_def u c demo_analyze_env_def demo_silent_model_def)
       (simp add: demo_server_globals_def)
  have j: "job_field (task_manager (snd ?job)) (ascii ''t1'') ''status'' = Some (PStatus COMPLETED)"
    unfolding m
    by (simp add: job_field_def stored_task_def update_task_def demo_tracker_def create_task_def
        TaskManager_init_def completed_def)
  have f: "find (\<lambda>msg. role msg = role_assistant) (rev ?h) = Some \<lparr>role = role_assistant, content = None\<rparr>"
    by simp
  have s: "stream_analysis_result (ascii ''c1'') (tutor (snd ?job)) = ([], Some type_error_len_none)"
    using t f by (simp add: stream_analysis_result_def)
  from r j t s show ?thesis by (intro conjI)
qed

theorem replay_none_content_witness:
  "fst (submit_task (ascii ''t1'')
          (analyze_file_content_async [] (demo_analyze_env demo_silent_model)
             (ascii ''t1'') (ascii ''c1'') (ascii ''Hello world''))
          2 7 demo_server_globals)
     = Inr (analysis_result (ascii ''c1'') None)
   \<and> conversations (tutor (snd (submit_task (ascii ''t1'')
          (analyze_file_content_async [] (demo_analyze_env demo_silent_model)
             (ascii ''t1'') (ascii ''c1'') (ascii ''Hello world''))
          2 7 demo_server_globals))) (ascii ''c1'')
       = Some [\<lparr>role = role_user, content = Some (analysis_request @ ascii ''Hello world'')\<rparr>,
               \<lparr>role = role_assistant, content = None\<rparr>]
   \<and> stream_analysis_result (ascii ''c1'') (tutor (snd (submit_task (ascii ''t1'')
          (analyze_file_content_async [] (demo_analyze_env demo_silent_model)
             (ascii ''t1'') (ascii ''c1'') (ascii ''Hello world''))
          2 7 demo_server_globals)))
       = ([], Some (PyExn ''TypeError'' (ascii ''object of type 'NoneType' has no len()'')))"
proof -
  note a = replay_none_content [of "[]" "ascii ''Hello world''"]
  show ?thesis
    by (intro conjI a [THEN conjunct1] a [THEN conjunct2, THEN conjunct2, THEN conjunct1]
        a [THEN conjunct2, THEN conjunct2, THEN conjunct2, unfolded type_error_len_none_def])
qed

text \<open>
  Claim C5. When the conversation id is not in the store, or its transcript is empty, or
  its transcript has turns but no assistant turn, the stream of
  \<^verbatim>\<open>GET /analyze-stream/<conversation_id>\<close> is one \<open>Error\<close> event and nothing else
  (no content event, no \<open>Done\<close>, no exception), and the three cases have three
  different messages.
\<close>

theorem replay_errors:
  "(conversations t conversation_id = None \<longrightarrow>
      stream_analysis_result conversation_id t = ([Error conversation_missing], None))
   \<and> (conversations t conversation_id = Some [] \<longrightarrow>
      stream_analysis_result conversation_id t = ([Error no_analysis_result], None))
   \<and> (\<forall>messages. conversations t conversation_id = Some messages \<and> messages \<noteq> []
        \<and> (\<forall>m\<in>set messages. role m \<noteq> role_assistant) \<longrightarrow>
      stream_analysis_result conversation_id t = ([Error no_ai_reply], None))
   \<and> conversation_missing \<noteq> no_analysis_result
   \<and> conversation_missing \<noteq> no_ai_reply
   \<and> no_analysis_result \<noteq> no_ai_reply"
proof -
  have a: "conversations t conversation_id = None \<longrightarrow>
      stream_analysis_result conversation_id t = ([Error conversation_missing], None)"
    by (simp add: stream_analysis_result_def)
  have b: "conversations t conversation_id = Some [] \<longrightarrow>
      stream_analysis_result conversation_id t = ([Error no_analysis_result], None)"
    by (simp add: stream_analysis_result_def)
  have c: "stream_analysis_result conversation_id t = ([Error no_ai_reply], None)"
    if "conversations t conversation_id = Some messages" "messages \<noteq> []"
      "\<forall>m\<in>set messages. role m \<noteq> role_assistant" for messages
  proof -
    have "find (\<lambda>msg. role msg = role_assistant) (rev messages) = None"
      using that(3) by (intro find_none) simp
    then show ?thesis using that(1,2) by (simp add: stream_analysis_result_def)
  qed
  have d: "conversation_missing \<noteq> no_analysis_result" "conversation_missing \<noteq> no_ai_reply"
    "no_analysis_result \<noteq> no_ai_reply"
    by (simp_all add: conversation_missing_def no_analysis_result_def no_ai_reply_def)
  from a b c d show ?thesis by blast
qed

theorem replay_errors_witness:
  "stream_analysis_result (ascii ''c1'') \<lparr>conversations = Map.empty, conversations_file = NoFile\<rparr>
     = ([Error conversation_missing], None)
   \<and> stream_analysis_result (ascii ''c1'')
       \<lparr>conversations = [ascii ''c1'' \<mapsto> []], conversations_file = NoFile\<rparr>
     = ([Error no_analysis_result], None)
   \<and> stream_analysis_result (ascii ''c1'')
       \<lparr>conversations = [ascii ''c1'' \<mapsto> [\<lparr>role = role_user, content = Some (ascii ''hi'')\<rparr>]],
        conversations_file = NoFile\<rparr>
     = ([Error no_ai_reply], None)"
proof -
  have r: "role_user \<noteq> role_assistant"
    by (simp add: role_user_def role_assistant_def ascii_def)
  show ?thesis
    using r
      replay_errors [of "\<lparr>conversations = Map.empty, conversations_file = NoFile\<rparr>" "ascii ''c1''"]
      replay_errors [of "\<lparr>conversations = [ascii ''c1'' \<mapsto> []], conversations_file = NoFile\<rparr>"
        "ascii ''c1''"]
      replay_errors [of "\<lparr>conversations = [ascii ''c1'' \<mapsto>
          [\<lparr>role = role_user, content = Some (ascii ''hi'')\<rparr>]], conversations_file = NoFile\<rparr>"
        "ascii ''c1''"]
    by simp
qed

section \<open>The upload response\<close>

lemma dropWhile_all: "(dropWhile P s = []) = (\<forall>c\<in>set s. P c)"
  by (induction s) auto

lemma strip_empty_iff: "strip s = [] \<longleftrightarrow> (\<forall>c\<in>set s. py_isspace c)"
proof (cases "dropWhile py_isspace s = []")
  case True
  have "strip s = []" unfolding strip_def True by simp
  moreover have "\<forall>c\<in>set s. py_isspace c"
    using True dropWhile_all [of py_isspace s] by blast
  ultimately show ?thesis by simp
next
  case False
  then have "\<not> py_isspace (hd (dropWhile py_isspace s))" by (rule hd_dropWhile)
  moreover have "hd (dropWhile py_isspace s) \<in> set (rev (dropWhile py_isspace s))"
    using False by simp
  ultimately have "dropWhile py_isspace (rev (dropWhile py_isspace s)) \<noteq> []"
    unfolding dropWhile_all by blast
  then have "strip s \<noteq> []" by (simp add: strip_def)
  moreover have "\<not> (\<forall>c\<in>set s. py_isspace c)"
    using False dropWhile_all [of py_isspace s] by blast
  ultimately show ?thesis by simp
qed

lemma has_text_iff:
  "(truthy (Some file_content) \<and> truthy (Some (strip file_content)))
     = (\<exists>c\<in>set file_content. \<not> py_isspace c)"
  using strip_empty_iff [of file_content] by (auto simp: truthy_def)

lemma allowed_demo: "allowed_file (ascii ''a.txt'')"
  by (simp add: allowed_file_def ascii_def lower_def ALLOWED_EXTENSIONS_def)

text \<open>
  Claim C9, as amended. For an upload that passes the checks and is stored, whose
  extracted text has a character that is not whitespace, the response has status 200,
  \<^verbatim>\<open>status\<close> \<^verbatim>\<open>processing\<close>, and its \<^verbatim>\<open>content_preview\<close> is the whole text
  when that has at most 500 characters and the first 500 characters followed by
  \<^verbatim>\<open>...\<close> when it is longer. When no text was extracted, or only whitespace, the
  response (still 200, \<^verbatim>\<open>status\<close> \<^verbatim>\<open>completed\<close>) has no
  \<^verbatim>\<open>content_preview\<close>.
\<close>

theorem upload_preview:
  assumes "name \<noteq> []" and "allowed_file name" and "save_raises u = None"
  shows "(\<forall>file_content. extracted_text u = Some file_content \<and> (\<exists>c\<in>set file_content. \<not> py_isspace c) \<longrightarrow>
            response_code (fst (upload_file (Some name) u g)) = Some 200
          \<and> response_field (fst (upload_file (Some name) u g)) ''status'' = Some (PStr (ascii ''processing''))
          \<and> response_field (fst (upload_file (Some name) u g)) ''content_preview'' =
              Some (PStr (if length file_content \<le> 500 then file_content
                          else take 500 file_content @ ascii ''...'')))
       \<and> ((extracted_text u = None \<or> (\<exists>file_content. extracted_text u = Some file_content \<and> (\<forall>c\<in>set file_content. py_isspace c))) \<longrightarrow>
            response_code (fst (upload_file (Some name) u g)) = Some 200
          \<and> response_field (fst (upload_file (Some name) u g)) ''status'' = Some (PStr (ascii ''completed''))
          \<and> response_field (fst (upload_file (Some name) u g)) ''content_preview'' = None)"
proof -
  let ?r = "fst (upload_file (Some name) u g)"
  have yes: "response_code ?r = Some 200
      \<and> response_field ?r ''status'' = Some (PStr (ascii ''processing''))
      \<and> response_field ?r ''content_preview'' =
          Some (PStr (if length file_content \<le> 500 then file_content
                      else take 500 file_content @ ascii ''...''))"
    if "extracted_text u = Some file_content" "\<exists>c\<in>set file_content. \<not> py_isspace c"
    for file_content
  proof -
    have "truthy (Some file_content) \<and> truthy (Some (strip file_content))"
      using that(2) by (simp only: has_text_iff)
    then show ?thesis
      using assms that(1)
      by (simp add: upload_file_def Let_def response_code_def response_field_def
          content_preview_def)
  qed
  have no: "response_code ?r = Some 200
      \<and> response_field ?r ''status'' = Some (PStr (ascii ''completed''))
      \<and> response_field ?r ''content_preview'' = None"
    if "extracted_text u = None \<or> (\<exists>file_content. extracted_text u = Some file_content
          \<and> (\<forall>c\<in>set file_content. py_isspace c))"
  proof -
    have "\<not> (truthy (extracted_text u) \<and> truthy (map_option strip (extracted_text u)))"
      using that by (auto simp: truthy_def strip_empty_iff)
    then show ?thesis
      using assms
      by (simp add: upload_file_def Let_def response_code_def response_field_def)
  qed
  from yes no show ?thesis by blast
qed

theorem upload_preview_witness:
  "response_field (fst (upload_file (Some (ascii ''a.txt'')) (demo_upload (Some (ascii ''Hello world''))) demo_globals))
        ''content_preview'' = Some (PStr (ascii ''Hello world''))
  \<and> response_field (fst (upload_file (Some (ascii ''a.txt'')) (demo_upload (Some (replicate 501 97))) demo_globals))
        ''content_preview'' = Some (PStr (replicate 500 97 @ ascii ''...''))
  \<and> response_field (fst (upload_file (Some (ascii ''a.txt'')) (demo_upload (Some [32])) demo_globals))
        ''content_preview'' = None"
proof -
  have n: "ascii ''a.txt'' \<noteq> []" by (simp add: ascii_def)
  have s: "save_raises (demo_upload x) = None" "extracted_text (demo_upload x) = x" for x
    by (simp_all add: demo_upload_def)
  have h: "\<exists>c\<in>set (ascii ''Hello world''). \<not> py_isspace c"
    by (simp add: ascii_def py_isspace_def)
  have l: "length (ascii ''Hello world'') \<le> 500" by (simp add: ascii_def)
  have h2: "\<exists>c\<in>set (replicate 501 (97::nat)). \<not> py_isspace c"
    by (simp add: py_isspace_def)
  have h3: "\<forall>c\<in>set [32::nat]. py_isspace c"
    by (simp add: py_isspace_def)
  show ?thesis
    using upload_preview [OF n allowed_demo s(1), of "Some (ascii ''Hello world'')" demo_globals]
      upload_preview [OF n allowed_demo s(1), of "Some (replicate 501 97)" demo_globals]
      upload_preview [OF n allowed_demo s(1), of "Some [32]" demo_globals]
      h l h2 h3
    by (simp add: s)
qed

text \<open>
  Claim C9 as stated fails: for an extracted text of 501 characters the preview is 503
  characters long (the first 500 and three dots), not the first 500; and for an
  extracted text that is one space (not empty) the response has no preview at all.
\<close>

theorem upload_preview_counterexample:
  "response_code (fst (upload_file (Some (ascii ''a.txt'')) (demo_upload (Some (replicate 501 97))) demo_globals)) = Some 200
   \<and> response_field (fst (upload_file (Some (ascii ''a.txt'')) (demo_upload (Some (replicate 501 97))) demo_globals))
        ''content_preview'' = Some (PStr (replicate 500 97 @ [46, 46, 46]))
   \<and> replicate 500 97 @ [46, 46, 46] \<noteq> take 500 (replicate 501 (97::nat))
   \<and> response_code (fst (upload_file (Some (ascii ''a.txt'')) (demo_upload (Some [32])) demo_globals)) = Some 200
   \<and> response_field (fst (upload_file (Some (ascii ''a.txt'')) (demo_upload (Some [32])) demo_globals))
        ''content_preview'' = None"
proof -
  have s1: "strip (replicate 501 97) \<noteq> []"
    using strip_empty_iff [of "replicate 501 97"] by (simp add: py_isspace_def)
  have s2: "strip [32] = []"
    using strip_empty_iff [of "[32]"] by (simp add: py_isspace_def)
  have n: "replicate 500 97 @ [46, 46, 46] \<noteq> take 500 (replicate 501 (97::nat))"
  proof
    assume "replicate 500 97 @ [46, 46, 46] = take 500 (replicate 501 (97::nat))"
    then have "length (replicate 500 (97::nat) @ [46, 46, 46]) = length (take 500 (replicate 501 (97::nat)))"
      by simp
    then show False by simp
  qed
  show ?thesis
    using s1 s2 n allowed_demo
    by (simp add: upload_file_def Let_def response_code_def response_field_def content_preview_def
        demo_upload_def truthy_def ascii_def)
qed

section \<open>The records of the tracker\<close>

lemma wf_init: "wf_tracker TaskManager_init"
  by (simp add: wf_tracker_def TaskManager_init_def)

lemma wf_update: "wf_tracker m \<Longrightarrow> wf_tracker (update_task a u now m)"
  by (simp add: wf_tracker_def update_task_def split: option.splits)

lemma wf_create: "wf_tracker m \<Longrightarrow> wf_tracker (snd (create_task a ty kw t1 t2 m))"
  unfolding wf_tracker_def create_task_def
  by (auto simp: less_Suc_eq split: if_splits)

lemma stored_update_same:
  "stored_task (update_task a u now m) a
     = map_option (\<lambda>d. (d ++ u)(''updated_at'' \<mapsto> PFloat now)) (stored_task m a)"
  by (simp add: stored_task_def update_task_def split: option.splits)

lemma stored_update_other:
  "wf_tracker m \<Longrightarrow> b \<noteq> a \<Longrightarrow> stored_task (update_task a u now m) b = stored_task m b"
  unfolding wf_tracker_def stored_task_def update_task_def
  by (cases "tasks m a"; cases "tasks m b") auto

lemma stored_create_same:
  "stored_task (snd (create_task a ty kw t1 t2 m)) a =
     Some ([''id'' \<mapsto> PStr a, ''type'' \<mapsto> PStr ty, ''status'' \<mapsto> PStatus PENDING,
            ''progress'' \<mapsto> PInt 0, ''result'' \<mapsto> PNone, ''error'' \<mapsto> PNone,
            ''created_at'' \<mapsto> PFloat t1, ''updated_at'' \<mapsto> PFloat t2] ++ kw)"
  by (simp add: stored_task_def create_task_def)

lemma stored_create_other:
  "wf_tracker m \<Longrightarrow> b \<noteq> a \<Longrightarrow> stored_task (snd (create_task a ty kw t1 t2 m)) b = stored_task m b"
  unfolding wf_tracker_def stored_task_def create_task_def
  by (cases "tasks m b") auto

lemma demo_tracker_eq:
  "demo_tracker = \<lparr>tasks = [ascii ''t1'' \<mapsto> 0],
     heap = (\<lambda>r. Map.empty)(0 := [''id'' \<mapsto> PStr (ascii ''t1''), ''type'' \<mapsto> PStr (ascii ''file_analysis''),
            ''status'' \<mapsto> PStatus PENDING,
            ''progress'' \<mapsto> PInt 0, ''result'' \<mapsto> PNone, ''error'' \<mapsto> PNone,
            ''created_at'' \<mapsto> PFloat 1, ''updated_at'' \<mapsto> PFloat 1]),
     next_ref = Suc 0\<rparr>"
  by (simp add: demo_tracker_def create_task_def TaskManager_init_def)

text \<open>
  Claim C6, as amended. \<^verbatim>\<open>create_task\<close> never fails: it returns the id, and
  afterwards the id stands for a fresh record (\<open>PENDING\<close>, progress 0, no result, no
  error, the given metadata), whether or not the id was in the tracker before.
\<close>

theorem create_task_replaces:
  "fst (create_task task_id task_type kwargs t1 t2 m) = task_id
   \<and> stored_task (snd (create_task task_id task_type kwargs t1 t2 m)) task_id =
       Some ([''id'' \<mapsto> PStr task_id, ''type'' \<mapsto> PStr task_type, ''status'' \<mapsto> PStatus PENDING,
              ''progress'' \<mapsto> PInt 0, ''result'' \<mapsto> PNone, ''error'' \<mapsto> PNone,
              ''created_at'' \<mapsto> PFloat t1, ''updated_at'' \<mapsto> PFloat t2] ++ kwargs)"
  by (simp add: stored_create_same) (simp add: create_task_def)

text \<open>
  Claim C6 as stated fails: in a tracker where job \<^verbatim>\<open>t1\<close> is \<open>COMPLETED\<close>,
  \<^verbatim>\<open>create_task\<close> with the id \<^verbatim>\<open>t1\<close> returns the id, and the record of
  \<^verbatim>\<open>t1\<close> is then \<open>PENDING\<close> with no result.
\<close>

theorem create_task_duplicate_counterexample:
  "job_field (update_task (ascii ''t1'') (completed (PStr (ascii ''ok''))) 2 demo_tracker)
      (ascii ''t1'') ''status'' = Some (PStatus COMPLETED)
   \<and> fst (create_task (ascii ''t1'') (ascii ''file_analysis'') Map.empty 3 3
         (update_task (ascii ''t1'') (completed (PStr (ascii ''ok''))) 2 demo_tracker)) = ascii ''t1''
   \<and> job_field (snd (create_task (ascii ''t1'') (ascii ''file_analysis'') Map.empty 3 3
         (update_task (ascii ''t1'') (completed (PStr (ascii ''ok''))) 2 demo_tracker)))
      (ascii ''t1'') ''status'' = Some (PStatus PENDING)
   \<and> job_field (snd (create_task (ascii ''t1'') (ascii ''file_analysis'') Map.empty 3 3
         (update_task (ascii ''t1'') (completed (PStr (ascii ''ok''))) 2 demo_tracker)))
      (ascii ''t1'') ''result'' = Some PNone"
  by (simp add: job_field_def stored_create_same stored_update_same completed_def)
     (simp add: create_task_def demo_tracker_eq stored_task_def)

text \<open>
  Claim C8, as amended. \<^verbatim>\<open>get_task\<close> returns \<^verbatim>\<open>None\<close> exactly for an id
  with no record, and otherwise a reference to the live record, not a copy: the object
  behind the reference is the stored record; after a later \<^verbatim>\<open>update_task\<close> of
  that id the same reference is still the stored one and its object shows the update;
  and a write of the caller through the reference changes the stored record.
\<close>

theorem get_task_live:
  "(get_task task_id m = None \<longleftrightarrow> stored_task m task_id = None)
   \<and> (\<forall>r. get_task task_id m = Some r \<longrightarrow>
        stored_task m task_id = Some (heap m r)
      \<and> get_task task_id (update_task task_id updates now m) = Some r
      \<and> heap (update_task task_id updates now m) r = (heap m r ++ updates)(''updated_at'' \<mapsto> PFloat now)
      \<and> stored_task (update_task task_id updates now m) task_id
           = Some (heap (update_task task_id updates now m) r)
      \<and> stored_task (caller_sets r k v m) task_id = Some ((heap m r)(k \<mapsto> v)))"
  by (simp add: get_task_def stored_task_def update_task_def caller_sets_def)

theorem get_task_live_witness:
  "get_task (ascii ''t1'') demo_tracker = Some 0
   \<and> heap demo_tracker 0 ''progress'' = Some (PInt 0)
   \<and> heap (update_task (ascii ''t1'') [''progress'' \<mapsto> PInt 50] 2 demo_tracker) 0 ''progress'' = Some (PInt 50)
   \<and> job_field (caller_sets 0 ''progress'' (PInt 7) demo_tracker) (ascii ''t1'') ''progress'' = Some (PInt 7)"
proof -
  have g: "get_task (ascii ''t1'') demo_tracker = Some 0"
    by (simp add: get_task_def demo_tracker_eq)
  have h: "heap demo_tracker 0 ''progress'' = Some (PInt 0)"
    by (simp add: demo_tracker_eq)
  show ?thesis
    using g h get_task_live [of "ascii ''t1''" demo_tracker "[''progress'' \<mapsto> PInt 50]" 2 "''progress''" "PInt 7"]
    by (simp add: job_field_def)
qed

text \<open>
  Claim C8 as stated fails: the caller gets reference 0 for job \<^verbatim>\<open>t1\<close> and reads
  progress 0 through it; after \<^verbatim>\<open>update_task\<close> with progress 50 the same
  reference reads 50; and when the caller writes progress 7 through the reference, the
  tracker's record of \<^verbatim>\<open>t1\<close> has progress 7.
\<close>

theorem get_task_copy_counterexample:
  "get_task (ascii ''t1'') demo_tracker = Some 0
   \<and> heap demo_tracker 0 ''progress'' = Some (PInt 0)
   \<and> heap (update_task (ascii ''t1'') [''progress'' \<mapsto> PInt 50] 2 demo_tracker) 0 ''progress'' = Some (PInt 50)
   \<and> job_field demo_tracker (ascii ''t1'') ''progress'' = Some (PInt 0)
   \<and> job_field (caller_sets 0 ''progress'' (PInt 7) demo_tracker) (ascii ''t1'') ''progress'' = Some (PInt 7)"
  by (simp add: get_task_def demo_tracker_eq update_task_def caller_sets_def job_field_def stored_task_def)

section \<open>The chat stream\<close>

lemma fragments_Nil: "fragments_of [] = []"
  by (simp add: fragments_of_def)

lemma fragments_Cons:
  "fragments_of ((d # ds) # cs) =
     (case d of Some f \<Rightarrow> (if f \<noteq> [] then [f] else []) | None \<Rightarrow> []) @ fragments_of cs"
  by (simp add: fragments_of_def split: option.splits)

lemma relay_chunks_fragments:
  "\<forall>c\<in>set cs. c \<noteq> [] \<Longrightarrow>
   relay_chunks cs acc = (map Content (fragments_of cs), Inr (acc @ concat (fragments_of cs)))"
proof (induction cs arbitrary: acc)
  case Nil
  then show ?case by (simp add: fragments_Nil)
next
  case (Cons c cs)
  then obtain d ds where c: "c = d # ds" by (cases c) auto
  have ih: "relay_chunks cs acc' = (map Content (fragments_of cs), Inr (acc' @ concat (fragments_of cs)))" for acc'
    using Cons by simp
  show ?case
    unfolding c by (cases d) (simp_all add: ih fragments_Cons truthy_def)
qed

lemma start_conversation_eq:
  "start_conversation sp gw cid msg t =
     (case gw (system_turn sp # history_of t cid @ [user_turn msg]) of
        Inr response \<Rightarrow> Inr (ResponseStream response)
      | Inl e \<Rightarrow>
          (if is_Exception e then Inr (ErrorString (model_call_failed @ exn_str e)) else Inl e),
      t\<lparr>conversations := (conversations t)(cid \<mapsto> history_of t cid @ [user_turn msg])\<rparr>)"
  by (simp add: start_conversation_def Let_def history_of_def user_turn_def system_turn_def
      split: sum.splits)

lemma save_keeps_memory: "conversations (save_conversations w t) = conversations t"
  by (simp add: save_conversations_def split: write_outcome.splits)

lemma chat_generate_history:
  "\<exists>rest. conversations (snd (chat_generate sp gw w cid msg t)) cid
      = Some (history_of t cid @ user_turn msg # rest)"
  by (auto simp: chat_generate_def start_conversation_eq save_keeps_memory
      split: sum.splits prod.splits option.splits)

lemma chat_is_generate:
  assumes "conversation_id \<noteq> []" and "user_message \<noteq> []"
  shows "chat system_prompt gw w (Some conversation_id) (Some user_message) t =
      (EventStream (fst (chat_generate system_prompt gw w conversation_id user_message t)),
       snd (chat_generate system_prompt gw w conversation_id user_message t))"
  using assms by (simp add: chat_def truthy_def split: prod.splits)

text \<open>
  What a \<^verbatim>\<open>POST /chat\<close> with a conversation id and a message, both not empty, gives
  when nothing raises after the call: when the gateway call returns a stream whose chunks
  all have a choice and that ends without an exception, the events are the content events
  of the non-empty fragments in their order followed by one \<open>Done\<close>, and afterwards the
  transcript is the former one, the user turn, and last an assistant turn whose text is
  the concatenation of those fragments. When the gateway call raises an
  \<^verbatim>\<open>Exception\<close>, the stream is one \<open>Error\<close> event and nothing else.
\<close>

lemma chat_stream_relay:
  assumes "conversation_id \<noteq> []" and "user_message \<noteq> []"
  shows "(\<forall>st. gw (system_turn system_prompt # history_of t conversation_id @ [user_turn user_message]) = Inr st
            \<and> (\<forall>c\<in>set (chunks st). c \<noteq> []) \<and> stream_exn st = None \<longrightarrow>
          fst (chat system_prompt gw w (Some conversation_id) (Some user_message) t)
            = EventStream (map Content (fragments_of (chunks st)) @ [Done], None)
        \<and> conversations (snd (chat system_prompt gw w (Some conversation_id) (Some user_message) t)) conversation_id
            = Some (history_of t conversation_id @
                    [user_turn user_message, assistant_turn (concat (fragments_of (chunks st)))]))
     \<and> (\<forall>e. gw (system_turn system_prompt # history_of t conversation_id @ [user_turn user_message]) = Inl e
            \<and> is_Exception e \<longrightarrow>
          fst (chat system_prompt gw w (Some conversation_id) (Some user_message) t)
            = EventStream ([Error (model_call_failed @ exn_str e)], None))"
proof -
  note c = chat_is_generate [OF assms, of system_prompt gw w t]
  have a: "chat_generate system_prompt gw w conversation_id user_message t =
      ((map Content (fragments_of (chunks st)) @ [Done], None),
        save_conversations w
          (t\<lparr>conversations := (conversations t)(conversation_id \<mapsto> history_of t conversation_id @
                    [user_turn user_message, assistant_turn (concat (fragments_of (chunks st)))])\<rparr>))"
    if "gw (system_turn system_prompt # history_of t conversation_id @ [user_turn user_message]) = Inr st"
      "\<forall>c\<in>set (chunks st). c \<noteq> []" "stream_exn st = None" for st
    using that(1,3) relay_chunks_fragments [OF that(2), of "[]"]
    by (simp add: chat_generate_def start_conversation_eq assistant_turn_def)
  have b: "chat_generate system_prompt gw w conversation_id user_message t =
      (([Error (model_call_failed @ exn_str e)], None),
       t\<lparr>conversations := (conversations t)(conversation_id \<mapsto> history_of t conversation_id @ [user_turn user_message])\<rparr>)"
    if "gw (system_turn system_prompt # history_of t conversation_id @ [user_turn user_message]) = Inl e"
      "is_Exception e" for e
    using that by (simp add: chat_generate_def start_conversation_eq)
  show ?thesis
    unfolding c using a b by (auto simp: save_keeps_memory)
qed

lemma chat_stream_relay_example:
  "fst (chat [] demo_stream_gateway WriteOk (Some (ascii ''c1'')) (Some (ascii ''hi'')) demo_tutor)
     = EventStream ([Content (ascii ''Hel''), Content (ascii ''lo''), Done], None)
   \<and> conversations (snd (chat [] demo_stream_gateway WriteOk (Some (ascii ''c1'')) (Some (ascii ''hi'')) demo_tutor))
       (ascii ''c1'') = Some [user_turn (ascii ''hi''), assistant_turn (ascii ''Hello'')]
   \<and> fst (chat [] demo_failing_gateway WriteOk (Some (ascii ''c1'')) (Some (ascii ''hi'')) demo_tutor)
     = EventStream ([Error (model_call_failed @ ascii ''Connection error.'')], None)"
proof -
  have n: "ascii ''c1'' \<noteq> []" "ascii ''hi'' \<noteq> []" by (simp_all add: ascii_def)
  have f: "fragments_of [[Some (ascii ''Hel'')], [None], [Some []], [Some (ascii ''lo'')]]
      = [ascii ''Hel'', ascii ''lo'']"
    by (simp add: fragments_of_def ascii_def)
  have h: "history_of demo_tutor (ascii ''c1'') = []"
    by (simp add: history_of_def demo_tutor_def)
  show ?thesis
    using chat_stream_relay [OF n, of demo_stream_gateway "[]" demo_tutor WriteOk]
      chat_stream_relay [OF n, of demo_failing_gateway "[]" demo_tutor WriteOk]
    by (simp add: demo_stream_gateway_def demo_failing_gateway_def is_Exception_def f h)
       (simp add: ascii_def)
qed

text \<open>
  Claim C3 fails where the gateway fails after its call has returned. The call of lines
  182-187 is inside the \<^verbatim>\<open>try\<close> of \<^verbatim>\<open>start_conversation\<close>, and its
  \<^verbatim>\<open>Exception\<close> becomes the one \<open>Error\<close> event; the loop of line 339 that reads the
  stream is inside no \<^verbatim>\<open>try\<close>. So for a \<^verbatim>\<open>POST /chat\<close> with a conversation id and
  a message, both not empty, whose gateway call returns a stream (every chunk with a
  choice) that raises \<open>e\<close> when it is read on: the events are the content events of the
  fragments read so far and then the stream ends with the exception \<open>e\<close>, with no
  \<open>Error\<close> event and no \<open>Done\<close>; and the transcript ends with the user turn, with no
  assistant turn. With a stream that raises at the first read (the gateway has produced no
  fragment) no event is emitted at all.
\<close>

theorem chat_stream_read_failure:
  assumes "conversation_id \<noteq> []" and "user_message \<noteq> []"
    and "gw (system_turn system_prompt # history_of t conversation_id @ [user_turn user_message]) = Inr st"
    and "\<forall>c\<in>set (chunks st). c \<noteq> []"
    and "stream_exn st = Some e"
  shows "chat system_prompt gw w (Some conversation_id) (Some user_message) t =
     (EventStream (map Content (fragments_of (chunks st)), Some e),
      t\<lparr>conversations := (conversations t)(conversation_id \<mapsto>
           history_of t conversation_id @ [user_turn user_message])\<rparr>)"
  unfolding chat_is_generate [OF assms(1,2)]
  using assms(3,5) relay_chunks_fragments [OF assms(4), of "[]"]
  by (simp add: chat_generate_def start_conversation_eq)

theorem chat_stream_read_failure_witness:
  "chat [] demo_broken_stream_gateway WriteOk (Some (ascii ''c1'')) (Some (ascii ''hi'')) demo_tutor =
     (EventStream ([], Some (PyExn ''APIConnectionError'' (ascii ''Connection error.''))),
      demo_tutor\<lparr>conversations := [ascii ''c1'' \<mapsto> [user_turn (ascii ''hi'')]]\<rparr>)"
proof -
  have n: "ascii ''c1'' \<noteq> []" "ascii ''hi'' \<noteq> []" by (simp_all add: ascii_def)
  have h: "history_of demo_tutor (ascii ''c1'') = []"
    by (simp add: history_of_def demo_tutor_def)
  have u: "(conversations demo_tutor)(ascii ''c1'' \<mapsto> x) = [ascii ''c1'' \<mapsto> x]" for x
    by (simp add: demo_tutor_def)
  have g: "demo_broken_stream_gateway (system_turn [] # history_of demo_tutor (ascii ''c1'') @ [user_turn (ascii ''hi'')])
      = Inr \<lparr>chunks = [], stream_exn = Some (PyExn ''APIConnectionError'' (ascii ''Connection error.''))\<rparr>"
    by (simp add: demo_broken_stream_gateway_def)
  show ?thesis
    using n g
      chat_stream_read_failure [of "ascii ''c1''" "ascii ''hi''" demo_broken_stream_gateway "[]"
        demo_tutor
        "\<lparr>chunks = [], stream_exn = Some (PyExn ''APIConnectionError'' (ascii ''Connection error.''))\<rparr>"
        "PyExn ''APIConnectionError'' (ascii ''Connection error.'')" WriteOk]
    by (simp add: h u fragments_Nil)
qed

text \<open>
  Claim C10. For a \<^verbatim>\<open>POST /chat\<close> with a message and a conversation id, both not
  empty, where the id is not in the conversation map: the response is the event stream
  (not a JSON error response such as a 404); \<^verbatim>\<open>start_conversation\<close> binds the id
  to a transcript that is just the user turn and calls the gateway with the system turn
  and that user turn; and after the request the transcript of the id starts with the
  user turn.
\<close>

theorem chat_unknown_conversation:
  assumes "conversations t conversation_id = None"
    and "conversation_id \<noteq> []" and "user_message \<noteq> []"
  shows "(\<exists>s. fst (chat system_prompt gw w (Some conversation_id) (Some user_message) t) = EventStream s)
     \<and> start_conversation system_prompt gw conversation_id user_message t =
         (case gw [system_turn system_prompt, user_turn user_message] of
            Inr response \<Rightarrow> Inr (ResponseStream response)
          | Inl e \<Rightarrow>
              (if is_Exception e then Inr (ErrorString (model_call_failed @ exn_str e))
               else Inl e),
          t\<lparr>conversations := (conversations t)(conversation_id \<mapsto> [user_turn user_message])\<rparr>)
     \<and> (\<exists>rest. conversations (snd (chat system_prompt gw w (Some conversation_id) (Some user_message) t))
            conversation_id = Some (user_turn user_message # rest))"
proof -
  note c = chat_is_generate [OF assms(2,3), of system_prompt gw w t]
  have h: "history_of t conversation_id = []"
    using assms(1) by (simp add: history_of_def)
  show ?thesis
    using chat_generate_history [of system_prompt gw w conversation_id user_message t]
    by (simp add: c h start_conversation_eq)
qed

theorem chat_unknown_conversation_witness:
  "(\<exists>s. fst (chat [] demo_stream_gateway WriteOk (Some (ascii ''c2'')) (Some (ascii ''hi'')) demo_tutor)
        = EventStream s)
   \<and> conversations (snd (start_conversation [] demo_stream_gateway (ascii ''c2'') (ascii ''hi'') demo_tutor))
        (ascii ''c2'') = Some [user_turn (ascii ''hi'')]
   \<and> (\<exists>rest. conversations (snd (chat [] demo_stream_gateway WriteOk (Some (ascii ''c2'')) (Some (ascii ''hi'')) demo_tutor))
            (ascii ''c2'') = Some (user_turn (ascii ''hi'') # rest))"
proof -
  have n: "ascii ''c2'' \<noteq> []" "ascii ''hi'' \<noteq> []" by (simp_all add: ascii_def)
  have a: "conversations demo_tutor (ascii ''c2'') = None"
    by (simp add: demo_tutor_def ascii_def)
  show ?thesis
    using chat_unknown_conversation [OF a n, of "[]" demo_stream_gateway WriteOk]
    by (simp add: demo_stream_gateway_def)
qed

text \<open>Which changes of the conversation map are written through: creating a conversation,
  \<^verbatim>\<open>add_assistant_message\<close> and a completed chat stream write the file (with the
  map, when the write succeeds); \<^verbatim>\<open>start_conversation\<close> leaves the file as it was.\<close>

lemma create_conversation_persists:
  "conversations_file (snd (create_conversation new_id WriteOk t))
     = Json (conversations (snd (create_conversation new_id WriteOk t)))"
  by (simp add: create_conversation_def save_conversations_def)

lemma add_assistant_message_persists:
  "conversations t conversation_id = Some h \<Longrightarrow>
   conversations_file (add_assistant_message conversation_id reply WriteOk t)
     = Json (conversations (add_assistant_message conversation_id reply WriteOk t))"
  by (simp add: add_assistant_message_def save_conversations_def)

lemma chat_generate_persists:
  assumes "gw (system_turn sp # history_of t cid @ [user_turn msg]) = Inr st"
    and "\<forall>c\<in>set (chunks st). c \<noteq> []" and "stream_exn st = None"
  shows "conversations_file (snd (chat_generate sp gw WriteOk cid msg t))
     = Json (conversations (snd (chat_generate sp gw WriteOk cid msg t)))"
  using assms(1,3) relay_chunks_fragments [OF assms(2), of "[]"]
  by (simp add: chat_generate_def start_conversation_eq save_conversations_def)

lemma start_conversation_file:
  "conversations_file (snd (start_conversation sp gw cid msg t)) = conversations_file t"
  by (simp add: start_conversation_eq)

text \<open>
  Claim C7 fails on \<^verbatim>\<open>start_conversation\<close>, which appends the user turn and does
  not write the file (\<^verbatim>\<open>create_conversation\<close> and \<^verbatim>\<open>add_assistant_message\<close> do
  write it after their change). With conversation \<^verbatim>\<open>c1\<close> empty in memory and on
  file, a \<^verbatim>\<open>POST /chat\<close> for \<^verbatim>\<open>c1\<close> with message \<^verbatim>\<open>hi\<close> whose gateway
  call raises leaves the user turn in memory while the file still holds the empty
  transcript.
\<close>

theorem user_turn_not_persisted:
  "conversations (snd (chat system_prompt demo_failing_gateway WriteOk (Some (ascii ''c1'')) (Some (ascii ''hi'')) demo_tutor))
      (ascii ''c1'') = Some [user_turn (ascii ''hi'')]
   \<and> conversations_file (snd (chat system_prompt demo_failing_gateway WriteOk (Some (ascii ''c1'')) (Some (ascii ''hi'')) demo_tutor))
      = Json [ascii ''c1'' \<mapsto> []]
   \<and> conversations_file (snd (chat system_prompt demo_failing_gateway WriteOk (Some (ascii ''c1'')) (Some (ascii ''hi'')) demo_tutor))
      \<noteq> Json (conversations (snd (chat system_prompt demo_failing_gateway WriteOk (Some (ascii ''c1'')) (Some (ascii ''hi'')) demo_tutor)))"
proof -
  have ok: "truthy (Some (ascii ''c1''))" "truthy (Some (ascii ''hi''))"
    by (simp_all add: truthy_def ascii_def)
  have h: "history_of demo_tutor (ascii ''c1'') = []"
    by (simp add: history_of_def demo_tutor_def)
  have c: "snd (chat system_prompt demo_failing_gateway WriteOk (Some (ascii ''c1'')) (Some (ascii ''hi'')) demo_tutor)
      = demo_tutor\<lparr>conversations := (conversations demo_tutor)(ascii ''c1'' \<mapsto> [user_turn (ascii ''hi'')])\<rparr>"
    using ok
    by (simp add: chat_def chat_generate_def start_conversation_eq demo_failing_gateway_def
        is_Exception_def h split: prod.splits)
  have d: "[ascii ''c1'' \<mapsto> ([]::turn list)] \<noteq> [ascii ''c1'' \<mapsto> [user_turn (ascii ''hi'')]]"
    by (metis list.distinct(1) map_upd_eqD1)
  show ?thesis
    unfolding c using d by (simp add: demo_tutor_def)
qed

theorem user_turn_not_persisted_witness:
  "conversations (snd (chat [] demo_failing_gateway WriteOk (Some (ascii ''c1'')) (Some (ascii ''hi'')) demo_tutor))
      (ascii ''c1'') = Some [user_turn (ascii ''hi'')]
   \<and> conversations_file (snd (chat [] demo_failing_gateway WriteOk (Some (ascii ''c1'')) (Some (ascii ''hi'')) demo_tutor))
      = Json [ascii ''c1'' \<mapsto> []]"
  using user_turn_not_persisted [of "[]"] by simp

section \<open>One job on its own\<close>

lemma stored_tracker_update:
  "stored_task (task_manager (tracker_update a u now g)) a
     = map_option (\<lambda>d. (d ++ u)(''updated_at'' \<mapsto> PFloat now)) (stored_task (task_manager g) a)"
  by (simp add: tracker_update_def stored_update_same)

lemma tutor_tracker_update: "tutor (tracker_update a u now g) = tutor g"
  by (simp add: tracker_update_def)

lemma analyze_keeps_outcome_fields:
  "keeps_outcome_fields task_id
     (analyze_file_content_async system_prompt e task_id conversation_id file_content)"
  unfolding keeps_outcome_fields_def
proof (intro allI impI)
  fix g :: globals and d
  assume d: "stored_task (task_manager g) task_id = Some d"
  let ?f = "analyze_file_content_async system_prompt e task_id conversation_id file_content"
  have "\<exists>d'. stored_task (task_manager (snd (?f g))) task_id = Some d'
           \<and> d' ''result'' = d ''result'' \<and> d' ''error'' = d ''error''"
    using d
    by (simp add: analyze_file_content_async_def Let_def stored_tracker_update tutor_tracker_update
        map_add_def split: option.splits sum.splits list.splits)
  then show "\<exists>d'. stored_task (task_manager (snd (?f g))) task_id = Some d'
           \<and> d' ''result'' = d ''result'' \<and> d' ''error'' = d ''error''" .
qed

text \<open>
  Claim C2, as amended. Take a job whose record exists with no result and no error (as
  \<^verbatim>\<open>create_task\<close> leaves it) and a work function that keeps the outcome fields.
  If the work function, run after the wrapper's first update, returns \<open>v\<close>, the record
  ends \<open>COMPLETED\<close> with progress 100, result \<open>v\<close> and no error, and the
  \<^verbatim>\<open>Future\<close> ends with \<open>v\<close>; the result is set exactly when \<open>v\<close> is not
  \<^verbatim>\<open>None\<close>. If it raises an \<^verbatim>\<open>Exception\<close> \<open>e\<close>, the record ends \<open>FAILED\<close>
  with progress 0, error \<^verbatim>\<open>str(e)\<close> and no result, and the exception is raised
  again and ends in the \<^verbatim>\<open>Future\<close>. If it raises an exception that is no
  \<^verbatim>\<open>Exception\<close>, the wrapper does not catch it: the exception ends in the
  \<^verbatim>\<open>Future\<close>, and the globals are as the work function left them, the record with
  no result and no error.
\<close>

theorem submit_task_outcome:
  assumes "stored_task (task_manager g) task_id = Some d"
    and "d ''result'' = Some PNone" and "d ''error'' = Some PNone"
    and "keeps_outcome_fields task_id func"
  shows "(\<forall>v. fst (func (tracker_update task_id started t_start g)) = Inr v \<longrightarrow>
            fst (submit_task task_id func t_start t_end g) = Inr v
          \<and> job_field (task_manager (snd (submit_task task_id func t_start t_end g))) task_id ''status''
              = Some (PStatus COMPLETED)
          \<and> job_field (task_manager (snd (submit_task task_id func t_start t_end g))) task_id ''progress''
              = Some (PInt 100)
          \<and> job_field (task_manager (snd (submit_task task_id func t_start t_end g))) task_id ''result''
              = Some v
          \<and> job_field (task_manager (snd (submit_task task_id func t_start t_end g))) task_id ''error''
              = Some PNone
          \<and> (is_set (job_field (task_manager (snd (submit_task task_id func t_start t_end g))) task_id ''result'')
               \<longleftrightarrow> v \<noteq> PNone)
          \<and> \<not> is_set (job_field (task_manager (snd (submit_task task_id func t_start t_end g))) task_id ''error''))
     \<and> (\<forall>e. fst (func (tracker_update task_id started t_start g)) = Inl e \<and> is_Exception e \<longrightarrow>
            fst (submit_task task_id func t_start t_end g) = Inl e
          \<and> job_field (task_manager (snd (submit_task task_id func t_start t_end g))) task_id ''status''
              = Some (PStatus FAILED)
          \<and> job_field (task_manager (snd (submit_task task_id func t_start t_end g))) task_id ''progress''
              = Some (PInt 0)
          \<and> job_field (task_manager (snd (submit_task task_id func t_start t_end g))) task_id ''error''
              = Some (PStr (exn_str e))
          \<and> job_field (task_manager (snd (submit_task task_id func t_start t_end g))) task_id ''result''
              = Some PNone
          \<and> is_set (job_field (task_manager (snd (submit_task task_id func t_start t_end g))) task_id ''error'')
          \<and> \<not> is_set (job_field (task_manager (snd (submit_task task_id func t_start t_end g))) task_id ''result''))
     \<and> (\<forall>e. fst (func (tracker_update task_id started t_start g)) = Inl e \<and> \<not> is_Exception e \<longrightarrow>
            fst (submit_task task_id func t_start t_end g) = Inl e
          \<and> snd (submit_task task_id func t_start t_end g)
              = snd (func (tracker_update task_id started t_start g))
          \<and> job_field (task_manager (snd (submit_task task_id func t_start t_end g))) task_id ''error''
              = Some PNone
          \<and> job_field (task_manager (snd (submit_task task_id func t_start t_end g))) task_id ''result''
              = Some PNone)"
proof -
  let ?g1 = "tracker_update task_id started t_start g"
  let ?d1 = "(d ++ started)(''updated_at'' \<mapsto> PFloat t_start)"
  let ?end = "task_manager (snd (submit_task task_id func t_start t_end g))"
  have s1: "stored_task (task_manager ?g1) task_id = Some ?d1"
    using assms(1) by (simp add: stored_tracker_update)
  have f1: "?d1 ''result'' = Some PNone" "?d1 ''error'' = Some PNone"
    using assms(2,3) by (simp_all add: started_def map_add_def)
  obtain d2 where s2: "stored_task (task_manager (snd (func ?g1))) task_id = Some d2"
    and f2: "d2 ''result'' = Some PNone" "d2 ''error'' = Some PNone"
    using assms(4) s1 f1 unfolding keeps_outcome_fields_def by metis
  have ok: "fst (submit_task task_id func t_start t_end g) = Inr v
      \<and> job_field ?end task_id ''status'' = Some (PStatus COMPLETED)
      \<and> job_field ?end task_id ''progress'' = Some (PInt 100)
      \<and> job_field ?end task_id ''result'' = Some v
      \<and> job_field ?end task_id ''error'' = Some PNone"
    if "fst (func ?g1) = Inr v" for v
  proof -
    have "fst (submit_task task_id func t_start t_end g) = Inr v
      \<and> stored_task ?end task_id = Some ((d2 ++ completed v)(''updated_at'' \<mapsto> PFloat t_end))"
      using that s2
      by (cases "func ?g1") (simp add: submit_task_def task_wrapper_def stored_tracker_update)
    then show ?thesis
      using f2 by (simp add: job_field_def completed_def map_add_def)
  qed
  have bad: "fst (submit_task task_id func t_start t_end g) = Inl e
      \<and> job_field ?end task_id ''status'' = Some (PStatus FAILED)
      \<and> job_field ?end task_id ''progress'' = Some (PInt 0)
      \<and> job_field ?end task_id ''error'' = Some (PStr (exn_str e))
      \<and> job_field ?end task_id ''result'' = Some PNone"
    if "fst (func ?g1) = Inl e" "is_Exception e" for e
  proof -
    have "fst (submit_task task_id func t_start t_end g) = Inl e
      \<and> stored_task ?end task_id = Some ((d2 ++ failed e)(''updated_at'' \<mapsto> PFloat t_end))"
      using that s2
      by (cases "func ?g1") (simp add: submit_task_def task_wrapper_def stored_tracker_update)
    then show ?thesis
      using f2 by (simp add: job_field_def failed_def map_add_def)
  qed
  have passed: "fst (submit_task task_id func t_start t_end g) = Inl e
      \<and> snd (submit_task task_id func t_start t_end g) = snd (func ?g1)
      \<and> job_field ?end task_id ''error'' = Some PNone
      \<and> job_field ?end task_id ''result'' = Some PNone"
    if "fst (func ?g1) = Inl e" "\<not> is_Exception e" for e
  proof -
    have "fst (submit_task task_id func t_start t_end g) = Inl e
      \<and> snd (submit_task task_id func t_start t_end g) = snd (func ?g1)"
      using that
      by (cases "func ?g1") (simp add: submit_task_def task_wrapper_def)
    then show ?thesis
      using s2 f2 by (simp add: job_field_def)
  qed
  have set_ok: "(is_set (job_field ?end task_id ''result'') \<longleftrightarrow> v \<noteq> PNone)
      \<and> \<not> is_set (job_field ?end task_id ''error'')"
    if "fst (func ?g1) = Inr v" for v
    using ok [OF that] by (simp add: is_set_def)
  have set_bad: "is_set (job_field ?end task_id ''error'')
      \<and> \<not> is_set (job_field ?end task_id ''result'')"
    if "fst (func ?g1) = Inl e" "is_Exception e" for e
    using bad [OF that] by (simp add: is_set_def)
  from ok bad passed set_ok set_bad show ?thesis by blast
qed

lemma demo_job_record:
  "stored_task (task_manager demo_server_globals) (ascii ''t1'') =
     Some [''id'' \<mapsto> PStr (ascii ''t1''), ''type'' \<mapsto> PStr (ascii ''file_analysis''),
           ''status'' \<mapsto> PStatus PENDING,
           ''progress'' \<mapsto> PInt 0, ''result'' \<mapsto> PNone, ''error'' \<mapsto> PNone,
           ''created_at'' \<mapsto> PFloat 1, ''updated_at'' \<mapsto> PFloat 1]"
  by (simp add: demo_server_globals_def demo_tracker_eq stored_task_def)

lemma demo_job_conversation: "conversations (tutor demo_server_globals) (ascii ''c1'') = Some []"
  by (simp add: demo_server_globals_def demo_tutor_def)

lemma demo_analyze_outcome:
  "fst (analyze_file_content_async [] (demo_analyze_env m) (ascii ''t1'') (ascii ''c1'')
          (ascii ''Hello world'') (tracker_update (ascii ''t1'') started 2 demo_server_globals))
     = (case m [\<lparr>role = role_system, content = Some []\<rparr>,
                \<lparr>role = role_user, content = Some (analysis_request @ ascii ''Hello world'')\<rparr>] of
          Inl ex \<Rightarrow> Inl ex
        | Inr [] \<Rightarrow> Inl index_error
        | Inr (ai_response # rest) \<Rightarrow> Inr (analysis_result (ascii ''c1'') ai_response))"
  by (simp add: analyze_file_content_async_def Let_def tutor_tracker_update demo_job_conversation
      demo_analyze_env_def split: sum.splits list.splits)

theorem submit_task_outcome_witness:
  "fst (submit_task (ascii ''t1'')
          (analyze_file_content_async [] (demo_analyze_env (\<lambda>messages. Inr [Some (ascii ''plan'')]))
             (ascii ''t1'') (ascii ''c1'') (ascii ''Hello world''))
          2 7 demo_server_globals)
     = Inr (analysis_result (ascii ''c1'') (Some (ascii ''plan'')))
   \<and> job_field (task_manager (snd (submit_task (ascii ''t1'')
          (analyze_file_content_async [] (demo_analyze_env (\<lambda>messages. Inr [Some (ascii ''plan'')]))
             (ascii ''t1'') (ascii ''c1'') (ascii ''Hello world''))
          2 7 demo_server_globals))) (ascii ''t1'') ''status'' = Some (PStatus COMPLETED)
   \<and> job_field (task_manager (snd (submit_task (ascii ''t1'')
          (analyze_file_content_async [] (demo_analyze_env (\<lambda>messages. Inr [Some (ascii ''plan'')]))
             (ascii ''t1'') (ascii ''c1'') (ascii ''Hello world''))
          2 7 demo_server_globals))) (ascii ''t1'') ''result''
       = Some (analysis_result (ascii ''c1'') (Some (ascii ''plan'')))
   \<and> fst (submit_task (ascii ''t1'')
          (analyze_file_content_async [] (demo_analyze_env (\<lambda>messages. Inl (PyExn ''APIConnectionError'' (ascii ''Connection error.''))))
             (ascii ''t1'') (ascii ''c1'') (ascii ''Hello world''))
          2 7 demo_server_globals)
     = Inl (PyExn ''APIConnectionError'' (ascii ''Connection error.''))
   \<and> job_field (task_manager (snd (submit_task (ascii ''t1'')
          (analyze_file_content_async [] (demo_analyze_env (\<lambda>messages. Inl (PyExn ''APIConnectionError'' (ascii ''Connection error.''))))
             (ascii ''t1'') (ascii ''c1'') (ascii ''Hello world''))
          2 7 demo_server_globals))) (ascii ''t1'') ''status'' = Some (PStatus FAILED)
   \<and> job_field (task_manager (snd (submit_task (ascii ''t1'')
          (analyze_file_content_async [] (demo_analyze_env (\<lambda>messages. Inl (PyExn ''APIConnectionError'' (ascii ''Connection error.''))))
             (ascii ''t1'') (ascii ''c1'') (ascii ''Hello world''))
          2 7 demo_server_globals))) (ascii ''t1'') ''error'' = Some (PStr (ascii ''Connection error.''))
   \<and> fst (submit_task (ascii ''t1'')
          (analyze_file_content_async [] (demo_analyze_env demo_exiting_model)
             (ascii ''t1'') (ascii ''c1'') (ascii ''Hello world''))
          2 7 demo_server_globals)
     = Inl (PyBaseExn ''SystemExit'' [])
   \<and> job_field (task_manager (snd (submit_task (ascii ''t1'')
          (analyze_file_content_async [] (demo_analyze_env demo_exiting_model)
             (ascii ''t1'') (ascii ''c1'') (ascii ''Hello world''))
          2 7 demo_server_globals))) (ascii ''t1'') ''error'' = Some PNone
   \<and> job_field (task_manager (snd (submit_task (ascii ''t1'')
          (analyze_file_content_async [] (demo_analyze_env demo_exiting_model)
             (ascii ''t1'') (ascii ''c1'') (ascii ''Hello world''))
          2 7 demo_server_globals))) (ascii ''t1'') ''result'' = Some PNone"
proof -
  let ?d = "[''id'' \<mapsto> PStr (ascii ''t1''), ''type'' \<mapsto> PStr (ascii ''file_analysis''),
            ''status'' \<mapsto> PStatus PENDING,
            ''progress'' \<mapsto> PInt 0, ''result'' \<mapsto> PNone, ''error'' \<mapsto> PNone,
            ''created_at'' \<mapsto> PFloat 1, ''updated_at'' \<mapsto> PFloat 1]"
  note s = demo_job_record
  have r: "?d ''result'' = Some PNone" and e: "?d ''error'' = Some PNone" by simp_all
  have good: "fst (analyze_file_content_async [] (demo_analyze_env (\<lambda>messages. Inr [Some (ascii ''plan'')]))
             (ascii ''t1'') (ascii ''c1'') (ascii ''Hello world'')
             (tracker_update (ascii ''t1'') started 2 demo_server_globals))
       = Inr (analysis_result (ascii ''c1'') (Some (ascii ''plan'')))"
    by (simp add: demo_analyze_outcome)
  have bad: "fst (analyze_file_content_async [] (demo_analyze_env (\<lambda>messages. Inl (PyExn ''APIConnectionError'' (ascii ''Connection error.''))))
             (ascii ''t1'') (ascii ''c1'') (ascii ''Hello world'')
             (tracker_update (ascii ''t1'') started 2 demo_server_globals))
       = Inl (PyExn ''APIConnectionError'' (ascii ''Connection error.''))"
    by (simp add: demo_analyze_outcome)
  have passed: "fst (analyze_file_content_async [] (demo_analyze_env demo_exiting_model)
             (ascii ''t1'') (ascii ''c1'') (ascii ''Hello world'')
             (tracker_update (ascii ''t1'') started 2 demo_server_globals))
       = Inl (PyBaseExn ''SystemExit'' [])"
    by (simp add: demo_analyze_outcome demo_exiting_model_def)
  have n: "\<not> is_Exception (PyBaseExn ''SystemExit'' [])"
    and y: "is_Exception (PyExn ''APIConnectionError'' (ascii ''Connection error.''))"
    by (simp_all add: is_Exception_def)
  note a = submit_task_outcome [OF s r e analyze_keeps_outcome_fields,
        of "[]" "demo_analyze_env (\<lambda>messages. Inr [Some (ascii ''plan'')])" "ascii ''c1''" "ascii ''Hello world''" 2 7]
  note b = submit_task_outcome [OF s r e analyze_keeps_outcome_fields,
        of "[]" "demo_analyze_env (\<lambda>messages. Inl (PyExn ''APIConnectionError'' (ascii ''Connection error.'')))" "ascii ''c1''" "ascii ''Hello world''" 2 7]
  note c = submit_task_outcome [OF s r e analyze_keeps_outcome_fields,
        of "[]" "demo_analyze_env demo_exiting_model" "ascii ''c1''" "ascii ''Hello world''" 2 7]
  note a' = a [THEN conjunct1, rule_format, OF good]
  note b' = b [THEN conjunct2, THEN conjunct1, rule_format, OF conjI [OF bad y]]
  note c' = c [THEN conjunct2, THEN conjunct2, rule_format, OF conjI [OF passed n]]
  have x: "exn_str (PyExn ''APIConnectionError'' (ascii ''Connection error.'')) = ascii ''Connection error.''"
    by simp
  note A = a' [THEN conjunct1] a' [THEN conjunct2, THEN conjunct1]
    a' [THEN conjunct2, THEN conjunct2, THEN conjunct2, THEN conjunct1]
  note B = b' [THEN conjunct1] b' [THEN conjunct2, THEN conjunct1]
    b' [THEN conjunct2, THEN conjunct2, THEN conjunct2, THEN conjunct1, unfolded x]
  note C = c' [THEN conjunct1] c' [THEN conjunct2, THEN conjunct2, THEN conjunct1]
    c' [THEN conjunct2, THEN conjunct2, THEN conjunct2]
  show ?thesis
    by (intro conjI A B C)
qed

text \<open>
  Claim C2 as stated fails. A work function that returns \<^verbatim>\<open>None\<close> leaves the job
  \<open>COMPLETED\<close> with neither result nor error set. And when the gateway call inside
  \<^verbatim>\<open>analyze_file_content_async\<close> raises \<^verbatim>\<open>SystemExit\<close>
  (which is no \<^verbatim>\<open>Exception\<close>), the wrapper does not catch it: the exception ends in
  the \<^verbatim>\<open>Future\<close> while the record stays \<open>PROCESSING\<close> with progress 70 and no
  error.
\<close>

theorem submit_task_outcome_counterexample:
  "fst (submit_task (ascii ''t1'') demo_work_none 2 7 demo_server_globals) = Inr PNone
   \<and> job_field (task_manager (snd (submit_task (ascii ''t1'') demo_work_none 2 7 demo_server_globals)))
        (ascii ''t1'') ''status'' = Some (PStatus COMPLETED)
   \<and> \<not> is_set (job_field (task_manager (snd (submit_task (ascii ''t1'') demo_work_none 2 7 demo_server_globals)))
        (ascii ''t1'') ''result'')
   \<and> \<not> is_set (job_field (task_manager (snd (submit_task (ascii ''t1'') demo_work_none 2 7 demo_server_globals)))
        (ascii ''t1'') ''error'')
   \<and> fst (submit_task (ascii ''t1'')
          (analyze_file_content_async [] (demo_analyze_env demo_exiting_model)
             (ascii ''t1'') (ascii ''c1'') (ascii ''Hello world''))
          2 7 demo_server_globals)
     = Inl (PyBaseExn ''SystemExit'' [])
   \<and> job_field (task_manager (snd (submit_task (ascii ''t1'')
          (analyze_file_content_async [] (demo_analyze_env demo_exiting_model)
             (ascii ''t1'') (ascii ''c1'') (ascii ''Hello world''))
          2 7 demo_server_globals))) (ascii ''t1'') ''status'' = Some (PStatus PROCESSING)
   \<and> job_field (task_manager (snd (submit_task (ascii ''t1'')
          (analyze_file_content_async [] (demo_analyze_env demo_exiting_model)
             (ascii ''t1'') (ascii ''c1'') (ascii ''Hello world''))
          2 7 demo_server_globals))) (ascii ''t1'') ''progress'' = Some (PInt 70)
   \<and> \<not> is_set (job_field (task_manager (snd (submit_task (ascii ''t1'')
          (analyze_file_content_async [] (demo_analyze_env demo_exiting_model)
             (ascii ''t1'') (ascii ''c1'') (ascii ''Hello world''))
          2 7 demo_server_globals))) (ascii ''t1'') ''error'')"
proof -
  have none: "submit_task (ascii ''t1'') demo_work_none 2 7 demo_server_globals =
      (Inr PNone, tracker_update (ascii ''t1'') (completed PNone) 7
                    (tracker_update (ascii ''t1'') started 2 demo_server_globals))"
    by (simp add: submit_task_def task_wrapper_def demo_work_none_def)
  have interrupted: "submit_task (ascii ''t1'')
          (analyze_file_content_async [] (demo_analyze_env demo_exiting_model)
             (ascii ''t1'') (ascii ''c1'') (ascii ''Hello world''))
          2 7 demo_server_globals =
      (Inl (PyBaseExn ''SystemExit'' []),
       tracker_update (ascii ''t1'') [''progress'' \<mapsto> PInt 70] 5
         (tracker_update (ascii ''t1'') [''progress'' \<mapsto> PInt 50] 4
            ((tracker_update (ascii ''t1'')
                [''progress'' \<mapsto> PInt 30, ''status'' \<mapsto> PStatus PROCESSING] 3
                (tracker_update (ascii ''t1'') started 2 demo_server_globals))
             \<lparr>tutor := demo_tutor\<lparr>conversations := (conversations demo_tutor)(ascii ''c1'' \<mapsto>
                  [\<lparr>role = role_user, content = Some (analysis_request @ ascii ''Hello world'')\<rparr>])\<rparr>\<rparr>)))"
    by (simp add: submit_task_def task_wrapper_def analyze_file_content_async_def Let_def
        tutor_tracker_update demo_job_conversation demo_analyze_env_def demo_exiting_model_def
        is_Exception_def)
       (simp add: demo_server_globals_def)
  have t: "task_manager (x\<lparr>tutor := y\<rparr>) = task_manager x" for x :: globals and y
    by simp
  show ?thesis
    unfolding none interrupted fst_conv snd_conv
    by (simp add: job_field_def stored_tracker_update t demo_job_record completed_def started_def
        map_add_def is_set_def)
qed

section \<open>The jobs of the running server\<close>

lemma has_update:
  "has ((d ++ u)(''updated_at'' \<mapsto> PFloat now)) st p = has (d ++ u) st p"
  by (simp add: has_def)

lemma has_started: "has (d ++ started) st p \<longleftrightarrow> st = PROCESSING \<and> p = 10"
  by (auto simp: has_def started_def map_add_def)

lemma has_completed: "has (d ++ completed r) st p \<longleftrightarrow> st = COMPLETED \<and> p = 100"
  by (auto simp: has_def completed_def map_add_def)

lemma has_failed: "has (d ++ failed e) st p \<longleftrightarrow> st = FAILED \<and> p = 0"
  by (auto simp: has_def failed_def map_add_def)

lemma has_progress:
  "has (d ++ [''progress'' \<mapsto> PInt q]) st p \<longleftrightarrow> d ''status'' = Some (PStatus st) \<and> p = q"
  by (auto simp: has_def map_add_def)

lemma job_step_okI:
  assumes "has d st p" and "has d' st' p'" and "st' = st \<or> lifecycle st st'"
    and "0 \<le> p" and "p \<le> 100" and "0 \<le> p'" and "p' \<le> 100"
    and "st = PROCESSING \<Longrightarrow> st' = PROCESSING \<Longrightarrow> p \<le> p'"
  shows "job_step_ok d d'"
proof -
  have "st = COMPLETED \<or> st = FAILED \<longrightarrow> st' = st"
    using assms(3) by (auto simp: lifecycle_def)
  then show ?thesis
    unfolding job_step_ok_def using assms by blast
qed

lemma rangeI: "has d st p \<Longrightarrow> 0 \<le> p \<Longrightarrow> p \<le> 100 \<Longrightarrow> \<exists>st p. has d st p \<and> 0 \<le> p \<and> p \<le> 100"
  by blast

lemma at_place_range:
  "at_place pc d \<Longrightarrow> \<exists>st p. has d st p \<and> 0 \<le> p \<and> p \<le> 100"
  by (induction pc d rule: at_place.induct) (auto elim: rangeI split: if_splits)

lemma job_step_ok_refl: "at_place pc d \<Longrightarrow> job_step_ok d d"
  using at_place_range [of pc d] unfolding job_step_ok_def by blast

lemma update_step:
  assumes s: "stored_task (task_manager g) a = Some d" and h: "has d st p"
    and h': "has (d ++ u) st' p'"
    and l: "st' = st \<or> lifecycle st st'"
    and r: "0 \<le> p" "p \<le> 100" "0 \<le> p'" "p' \<le> 100"
    and m: "st = PROCESSING \<Longrightarrow> st' = PROCESSING \<Longrightarrow> p \<le> p'"
  shows "\<exists>d'. stored_task (task_manager (tracker_update a u now g)) a = Some d'
           \<and> has d' st' p' \<and> job_step_ok d d'"
proof -
  let ?d' = "(d ++ u)(''updated_at'' \<mapsto> PFloat now)"
  have 1: "stored_task (task_manager (tracker_update a u now g)) a = Some ?d'"
    using s by (simp add: stored_tracker_update)
  have 2: "has ?d' st' p'" using h' by (simp add: has_update)
  have 3: "job_step_ok d ?d'"
    using h 2 l r m by (rule job_step_okI)
  from 1 2 3 show ?thesis by blast
qed

lemma worker_step_id: "worker_step sp e w g = (w', g') \<Longrightarrow> w_task_id w' = w_task_id w"
  by (cases "w_pc w")
     (auto simp: worker_step_def Let_def split: option.splits sum.splits list.splits if_splits)

lemma worker_step_frame:
  "worker_step sp e w g = (w', g') \<Longrightarrow>
   task_manager g' = task_manager g
   \<or> (\<exists>u. task_manager g' = update_task (w_task_id w) u (clock e) (task_manager g))"
  by (cases "w_pc w")
     (auto simp: worker_step_def Let_def tracker_update_def
        split: option.splits sum.splits list.splits if_splits)

lemma worker_step_job:
  assumes w: "worker_step sp e w g = (w', g')"
    and s: "stored_task (task_manager g) (w_task_id w) = Some d"
    and a: "at_place (w_pc w) d"
  shows "\<exists>d'. stored_task (task_manager g') (w_task_id w) = Some d'
           \<and> at_place (w_pc w') d' \<and> job_step_ok d d'"
proof (cases "w_pc w")
  case W_start
  then have e: "w' = w\<lparr>w_pc := A_progress30\<rparr>" "g' = tracker_update (w_task_id w) started (clock e) g"
    using w by (simp_all add: worker_step_def)
  have h: "has d PENDING 0" using a W_start by simp
  have "\<exists>d'. stored_task (task_manager g') (w_task_id w) = Some d'
           \<and> has d' PROCESSING 10 \<and> job_step_ok d d'"
    unfolding e by (rule update_step [OF s h]) (simp_all add: has_started lifecycle_def)
  then show ?thesis by (auto simp: e)
next
  case A_progress30
  then have e: "w' = w\<lparr>w_pc := A_append_user\<rparr>"
    "g' = tracker_update (w_task_id w) [''progress'' \<mapsto> PInt 30, ''status'' \<mapsto> PStatus PROCESSING] (clock e) g"
    using w by (simp_all add: worker_step_def)
  have h: "has d PROCESSING 10" using a A_progress30 by simp
  have "\<exists>d'. stored_task (task_manager g') (w_task_id w) = Some d'
           \<and> has d' PROCESSING 30 \<and> job_step_ok d d'"
    unfolding e by (rule update_step [OF s h]) (simp_all add: has_def)
  then show ?thesis by (auto simp: e)
next
  case A_append_user
  then show ?thesis
    using w s a
    by (auto simp: worker_step_def Let_def job_step_ok_refl [of A_append_user]
        split: option.splits)
next
  case A_progress50
  then have e: "w' = w\<lparr>w_pc := A_messages\<rparr>"
    "g' = tracker_update (w_task_id w) [''progress'' \<mapsto> PInt 50] (clock e) g"
    using w by (simp_all add: worker_step_def)
  have h: "has d PROCESSING 30" using a A_progress50 by simp
  have "\<exists>d'. stored_task (task_manager g') (w_task_id w) = Some d'
           \<and> has d' PROCESSING 50 \<and> job_step_ok d d'"
    unfolding e using h by (intro update_step [OF s h]) (simp_all add: has_progress has_def)
  then show ?thesis by (auto simp: e)
next
  case A_messages
  then show ?thesis
    using w s a
    by (auto simp: worker_step_def Let_def job_step_ok_refl [of A_messages]
        split: option.splits)
next
  case (A_progress70 messages)
  then have e: "w' = w\<lparr>w_pc := A_call messages\<rparr>"
    "g' = tracker_update (w_task_id w) [''progress'' \<mapsto> PInt 70] (clock e) g"
    using w by (simp_all add: worker_step_def)
  have h: "has d PROCESSING 50" using a A_progress70 by simp
  have "\<exists>d'. stored_task (task_manager g') (w_task_id w) = Some d'
           \<and> has d' PROCESSING 70 \<and> job_step_ok d d'"
    unfolding e using h by (intro update_step [OF s h]) (simp_all add: has_progress has_def)
  then show ?thesis by (auto simp: e)
next
  case (A_call messages)
  then show ?thesis
    using w s a
    by (auto simp: worker_step_def Let_def job_step_ok_refl [of "A_call messages"]
        split: sum.splits list.splits)
next
  case (A_progress90 ai_response)
  then have e: "w' = w\<lparr>w_pc := A_add_reply ai_response\<rparr>"
    "g' = tracker_update (w_task_id w) [''progress'' \<mapsto> PInt 90] (clock e) g"
    using w by (simp_all add: worker_step_def)
  have h: "has d PROCESSING 70" using a A_progress90 by simp
  have "\<exists>d'. stored_task (task_manager g') (w_task_id w) = Some d'
           \<and> has d' PROCESSING 90 \<and> job_step_ok d d'"
    unfolding e using h by (intro update_step [OF s h]) (simp_all add: has_progress has_def)
  then show ?thesis by (auto simp: e)
next
  case (A_add_reply ai_response)
  then show ?thesis
    using w s a
    by (auto simp: worker_step_def Let_def job_step_ok_refl [of "A_add_reply ai_response"])
next
  case (W_completed res)
  then have e: "w' = w\<lparr>w_pc := Finished (Inr res)\<rparr>"
    "g' = tracker_update (w_task_id w) (completed res) (clock e) g"
    using w by (simp_all add: worker_step_def)
  have h: "has d PROCESSING 90" using a W_completed by simp
  have "\<exists>d'. stored_task (task_manager g') (w_task_id w) = Some d'
           \<and> has d' COMPLETED 100 \<and> job_step_ok d d'"
    unfolding e by (rule update_step [OF s h]) (simp_all add: has_completed lifecycle_def)
  then show ?thesis by (auto simp: e)
next
  case (W_failed ex)
  note pc = W_failed
  show ?thesis
  proof (cases "is_Exception ex")
    case True
    then have e: "w' = w\<lparr>w_pc := Finished (Inl ex)\<rparr>"
      "g' = tracker_update (w_task_id w) (failed ex) (clock e) g"
      using w pc by (simp_all add: worker_step_def)
    obtain p where h: "has d PROCESSING p" and p: "0 \<le> p" "p \<le> 100"
      using a pc by auto
    have "\<exists>d'. stored_task (task_manager g') (w_task_id w) = Some d'
             \<and> has d' FAILED 0 \<and> job_step_ok d d'"
      unfolding e using p by (intro update_step [OF s h]) (simp_all add: has_failed lifecycle_def)
    then show ?thesis using True by (auto simp: e)
  next
    case False
    then have e: "w' = w\<lparr>w_pc := Finished (Inl ex)\<rparr>" "g' = g"
      using w pc by (simp_all add: worker_step_def)
    have "at_place (W_failed ex) d" using a pc by simp
    then have "at_place (w_pc w') d \<and> job_step_ok d d"
      using False by (simp add: e job_step_ok_refl [of "W_failed ex"])
    then show ?thesis using s by (simp add: e)
  qed
next
  case (Finished r)
  then show ?thesis
    using w s a by (auto simp: worker_step_def job_step_ok_refl [of "Finished r"])
qed

text \<open>The two forms of the job agree: eleven steps of a worker that starts at
  \<open>W_start\<close>, with nothing in between, come to what \<^verbatim>\<open>task_wrapper\<close> around
  \<^verbatim>\<open>analyze_file_content_async\<close> returns.\<close>

lemma run_finished: "w_pc w = Finished r \<Longrightarrow> run_worker sp es w g = (w, g)"
  by (induction es) (simp_all add: worker_step_def)

lemma run_worker_is_task_wrapper:
  assumes "w_pc w = W_start"
  shows "run_worker sp [e, e, e, e, e, e, e, e, e, e, e] w g =
     (case task_wrapper (w_task_id w)
             (analyze_file_content_async sp (env_of e) (w_task_id w) (w_conversation_id w)
                (w_file_content w)) (clock e) (clock e) g of
        (r, g') \<Rightarrow> (w\<lparr>w_pc := Finished r\<rparr>, g'))"
proof -
  let ?g1 = "tracker_update (w_task_id w) [''progress'' \<mapsto> PInt 30, ''status'' \<mapsto> PStatus PROCESSING] (clock e)
      (tracker_update (w_task_id w) started (clock e) g)"
  show ?thesis
  proof (cases "conversations (tutor g) (w_conversation_id w)")
    case None
    then show ?thesis
      using assms
      by (simp add: worker_step_def task_wrapper_def analyze_file_content_async_def Let_def
          tutor_tracker_update env_of_def)
  next
    case (Some h)
    show ?thesis
    proof (cases "gw_blocking e (\<lparr>role = role_system, content = Some sp\<rparr> #
        h @ [\<lparr>role = role_user, content = Some (analysis_request @ w_file_content w)\<rparr>])")
      case (Inl ex)
      then show ?thesis
        using assms Some
        by (simp add: worker_step_def task_wrapper_def analyze_file_content_async_def Let_def
            tutor_tracker_update env_of_def tracker_update_def)
    next
      case (Inr choices)
      then show ?thesis
        using assms Some
        by (cases choices)
           (simp_all add: worker_step_def task_wrapper_def analyze_file_content_async_def Let_def
            tutor_tracker_update env_of_def tracker_update_def)
    qed
  qed
qed

lemma tasks_update: "tasks (update_task a u now m) = tasks m"
  by (simp add: update_task_def split: option.splits)

lemma tasks_create: "tasks (snd (create_task a ty kw t1 t2 m)) = (tasks m)(a \<mapsto> next_ref m)"
  by (simp add: create_task_def)

lemma stored_None: "stored_task m a = None \<longleftrightarrow> tasks m a = None"
  by (simp add: stored_task_def)

lemma has_created:
  "kw ''status'' = None \<Longrightarrow> kw ''progress'' = None \<Longrightarrow>
   has ([''id'' \<mapsto> PStr a, ''type'' \<mapsto> PStr ty, ''status'' \<mapsto> PStatus PENDING,
         ''progress'' \<mapsto> PInt 0, ''result'' \<mapsto> PNone, ''error'' \<mapsto> PNone,
         ''created_at'' \<mapsto> PFloat t1, ''updated_at'' \<mapsto> PFloat t2] ++ kw) PENDING 0"
  by (simp add: has_def map_add_def)

lemma upload_tracker:
  assumes "upload_file file_name u g = (resp, g', job)"
  shows "(job = None \<and> task_manager g' = task_manager g)
     \<or> (\<exists>w kw. job = Some w \<and> w_task_id w = uuid_task u \<and> w_pc w = W_start
           \<and> kw ''status'' = None \<and> kw ''progress'' = None
           \<and> task_manager g' = snd (create_task (uuid_task u) (ascii ''file_analysis'') kw
                 (t_created u) (t_updated u) (task_manager g)))"
proof (cases "\<exists>name. file_name = Some name \<and> name \<noteq> [] \<and> allowed_file name \<and> save_raises u = None
    \<and> truthy (extracted_text u) \<and> truthy (map_option strip (extracted_text u))")
  case True
  then obtain name where n: "file_name = Some name" "name \<noteq> []" "allowed_file name"
    "save_raises u = None" "truthy (extracted_text u) \<and> truthy (map_option strip (extracted_text u))"
    by blast
  let ?kw = "[''filename'' \<mapsto> PStr (uuid_file u @ [95] @ secure_name u),
              ''conversation_id'' \<mapsto> PStr (uuid_conversation u),
              ''file_size'' \<mapsto> PInt (file_size u)]"
  have k: "?kw ''status'' = None" "?kw ''progress'' = None" by simp_all
  have "\<exists>w. job = Some w \<and> w_task_id w = uuid_task u \<and> w_pc w = W_start
      \<and> task_manager g' = snd (create_task (uuid_task u) (ascii ''file_analysis'') ?kw
                 (t_created u) (t_updated u) (task_manager g))"
    using assms n by (auto simp: upload_file_def Let_def)
  then show ?thesis using k by blast
next
  case False
  then have "job = None \<and> task_manager g' = task_manager g"
    using assms
    by (auto simp: upload_file_def Let_def split: option.splits if_splits)
  then show ?thesis by simp
qed

lemma server_invI:
  assumes "wf_tracker (task_manager g)" and "distinct (map w_task_id p)"
    and "dom (tasks (task_manager g)) = w_task_id ` set p"
    and "\<And>x. x \<in> set p \<Longrightarrow>
           \<exists>d. stored_task (task_manager g) (w_task_id x) = Some d \<and> at_place (w_pc x) d"
  shows "server_inv \<lparr>mem = g, pool = p\<rparr>"
  using assms by (simp add: server_inv_def)

lemma inv_upload:
  assumes i: "server_inv s"
    and u: "upload_file file_name u (mem s) = (resp, g', job)"
    and f: "tasks (task_manager (mem s)) (uuid_task u) = None"
  shows "server_inv \<lparr>mem = g', pool = pool s @ (case job of None \<Rightarrow> [] | Some w \<Rightarrow> [w])\<rparr>"
  using upload_tracker [OF u]
proof (elim disjE exE conjE)
  assume "job = None" "task_manager g' = task_manager (mem s)"
  then show ?thesis using i by (simp add: server_inv_def)
next
  fix w kw
  let ?m = "task_manager (mem s)"
  let ?a = "uuid_task u"
  assume j: "job = Some w" and w: "w_task_id w = ?a" "w_pc w = W_start"
    and k: "kw ''status'' = None" "kw ''progress'' = None"
    and g: "task_manager g' = snd (create_task ?a (ascii ''file_analysis'') kw (t_created u) (t_updated u) ?m)"
  have wf: "wf_tracker ?m" and di: "distinct (map w_task_id (pool s))"
    and dom: "dom (tasks ?m) = w_task_id ` set (pool s)"
    and jobs: "\<forall>w\<in>set (pool s). \<exists>d. stored_task ?m (w_task_id w) = Some d \<and> at_place (w_pc w) d"
    using i by (simp_all add: server_inv_def)
  have "?a \<notin> dom (tasks ?m)" using f by (simp add: domIff)
  then have new: "?a \<notin> w_task_id ` set (pool s)" using dom by simp
  have 1: "wf_tracker (task_manager g')" unfolding g using wf by (rule wf_create)
  have 2: "distinct (map w_task_id (pool s @ [w]))" using di new w by simp
  have 3: "dom (tasks (task_manager g')) = w_task_id ` set (pool s @ [w])"
    unfolding g using dom w by (simp add: tasks_create)
  have 4: "\<exists>d. stored_task (task_manager g') (w_task_id x) = Some d \<and> at_place (w_pc x) d"
    if xin: "x \<in> set (pool s @ [w])" for x
  proof (cases "x \<in> set (pool s)")
    case True
    then have "w_task_id x \<in> w_task_id ` set (pool s)" by (rule imageI)
    then have "w_task_id x \<noteq> ?a" using new by auto
    then have "stored_task (task_manager g') (w_task_id x) = stored_task ?m (w_task_id x)"
      unfolding g using wf by (simp add: stored_create_other)
    then show ?thesis using jobs True by simp
  next
    case False
    then have x: "x = w" using xin by simp
    show ?thesis
      unfolding x w g using has_created [OF k] by (simp add: stored_create_same)
  qed
  have "server_inv \<lparr>mem = g', pool = pool s @ [w]\<rparr>"
    using 1 2 3 4 by (rule server_invI)
  then show ?thesis by (simp add: j)
qed

lemma inv_work:
  assumes i: "server_inv s"
    and n: "i < length (pool s)"
    and w: "worker_step sp e (pool s ! i) (mem s) = (w', g')"
  shows "server_inv \<lparr>mem = g', pool = (pool s)[i := w']\<rparr>"
proof -
  let ?m = "task_manager (mem s)"
  let ?w = "pool s ! i"
  let ?a = "w_task_id ?w"
  have wf: "wf_tracker ?m" and di: "distinct (map w_task_id (pool s))"
    and dom: "dom (tasks ?m) = w_task_id ` set (pool s)"
    and jobs: "\<forall>w\<in>set (pool s). \<exists>d. stored_task ?m (w_task_id w) = Some d \<and> at_place (w_pc w) d"
    using i by (simp_all add: server_inv_def)
  have id: "w_task_id w' = ?a" using w by (rule worker_step_id)
  have ids: "map w_task_id ((pool s)[i := w']) = map w_task_id (pool s)"
    using n id by (simp add: map_update list_update_same_conv)
  have fr: "task_manager g' = ?m \<or> (\<exists>u. task_manager g' = update_task ?a u (clock e) ?m)"
    using w by (rule worker_step_frame)
  have 1: "wf_tracker (task_manager g')" using fr wf by (auto intro: wf_update)
  have t: "tasks (task_manager g') = tasks ?m" using fr by (auto simp: tasks_update)
  have other: "stored_task (task_manager g') b = stored_task ?m b" if "b \<noteq> ?a" for b
    using fr wf that by (auto simp: stored_update_other)
  have "?w \<in> set (pool s)" using n by (rule nth_mem)
  then obtain d where d: "stored_task ?m ?a = Some d" "at_place (w_pc ?w) d"
    using jobs by blast
  obtain d' where d': "stored_task (task_manager g') ?a = Some d'" "at_place (w_pc w') d'"
    using worker_step_job [OF w d] by blast
  have 4: "\<exists>d. stored_task (task_manager g') (w_task_id x) = Some d \<and> at_place (w_pc x) d"
    if xin: "x \<in> set ((pool s)[i := w'])" for x
  proof -
    obtain j where j0: "j < length ((pool s)[i := w'])" "(pool s)[i := w'] ! j = x"
      using xin unfolding in_set_conv_nth by blast
    then have j: "j < length (pool s)" "x = (pool s)[i := w'] ! j" by simp_all
    show ?thesis
    proof (cases "j = i")
      case True
      then have "x = w'" using j n by simp
      then show ?thesis using d' id by simp
    next
      case False
      then have x: "x = pool s ! j" using j by simp
      have "map w_task_id (pool s) ! j \<noteq> map w_task_id (pool s) ! i"
        using nth_eq_iff_index_eq [OF di, of j i] False j(1) n by simp
      then have "w_task_id x \<noteq> ?a"
        unfolding x using j(1) n by simp
      then have "stored_task (task_manager g') (w_task_id x) = stored_task ?m (w_task_id x)"
        by (rule other)
      moreover have "x \<in> set (pool s)" unfolding x using j(1) by simp
      ultimately show ?thesis using jobs by simp
    qed
  qed
  have 2: "distinct (map w_task_id ((pool s)[i := w']))" using di ids by simp
  have "w_task_id ` set ((pool s)[i := w']) = set (map w_task_id ((pool s)[i := w']))"
    by simp
  also have "\<dots> = set (map w_task_id (pool s))" by (simp only: ids)
  also have "\<dots> = w_task_id ` set (pool s)" by simp
  finally have 3: "dom (tasks (task_manager g')) = w_task_id ` set ((pool s)[i := w'])"
    using dom t by simp
  show ?thesis using 1 2 3 4 by (rule server_invI)
qed

lemma inv_step: "server_step sp s s' \<Longrightarrow> server_inv s \<Longrightarrow> server_inv s'"
proof (induction rule: server_step.induct)
  case (upload file_name u s resp g' job)
  from upload(3) upload(1) upload(2) show ?case by (rule inv_upload)
next
  case (work i s e w' g')
  from work(3) work(1) work(2) show ?case by (rule inv_work)
next
  case (other g' s)
  then show ?case by (simp add: server_inv_def)
qed

lemma inv_reachable: "reachable sp s \<Longrightarrow> server_inv s"
proof (induction rule: reachable.induct)
  case (start t0)
  show ?case by (simp add: server_inv_def wf_init) (simp add: TaskManager_init_def)
next
  case (step s s')
  from step(2) step(3) show ?case by (rule inv_step)
qed

lemma inv_job_place:
  assumes i: "server_inv s" and d: "stored_task (task_manager (mem s)) a = Some d"
  shows "\<exists>pc. at_place pc d"
proof -
  have "tasks (task_manager (mem s)) a \<noteq> None" using d by (auto simp: stored_task_def)
  then have "a \<in> dom (tasks (task_manager (mem s)))" by (simp add: domIff)
  then have "a \<in> w_task_id ` set (pool s)" using i by (simp add: server_inv_def)
  then obtain w where w: "w \<in> set (pool s)" "a = w_task_id w" by blast
  then obtain d0 where "stored_task (task_manager (mem s)) (w_task_id w) = Some d0" "at_place (w_pc w) d0"
    using i unfolding server_inv_def by blast
  then show ?thesis using d w(2) by auto
qed

lemma step_jobs:
  assumes st: "server_step sp s s'" and i: "server_inv s"
  shows "(\<forall>a d. stored_task (task_manager (mem s)) a = Some d \<longrightarrow>
            (\<exists>d'. stored_task (task_manager (mem s')) a = Some d' \<and> job_step_ok d d'))
       \<and> (\<forall>a d'. stored_task (task_manager (mem s)) a = None
              \<and> stored_task (task_manager (mem s')) a = Some d' \<longrightarrow> has d' PENDING 0)"
  using st i
proof (induction rule: server_step.induct)
  case (upload file_name u s resp g' job)
  let ?m = "task_manager (mem s)"
  have stay: "job_step_ok d d" if "stored_task ?m a = Some d" for a d
    using inv_job_place [OF upload(3) that] job_step_ok_refl by blast
  from upload_tracker [OF upload(1)] show ?case
  proof (elim disjE exE conjE)
    assume "job = None" "task_manager g' = ?m"
    then show ?thesis using stay by auto
  next
    fix w kw
    let ?a = "uuid_task u"
    assume k: "kw ''status'' = None" "kw ''progress'' = None"
      and g: "task_manager g' = snd (create_task ?a (ascii ''file_analysis'') kw (t_created u) (t_updated u) ?m)"
    have wf: "wf_tracker ?m" using upload(3) by (simp add: server_inv_def)
    have same: "stored_task (task_manager g') b = stored_task ?m b" if "b \<noteq> ?a" for b
      unfolding g using wf that by (simp add: stored_create_other)
    have new: "stored_task ?m ?a = None" using upload(2) by (simp add: stored_None)
    have a: "\<exists>d'. stored_task (task_manager g') b = Some d' \<and> job_step_ok d d'"
      if "stored_task ?m b = Some d" for b d
    proof -
      have "b \<noteq> ?a" using that new by auto
      then show ?thesis using same that stay by simp
    qed
    have b: "has d' PENDING 0"
      if "stored_task ?m b = None" "stored_task (task_manager g') b = Some d'" for b d'
    proof (cases "b = ?a")
      case True
      then show ?thesis using that(2) has_created [OF k] unfolding g by (auto simp: stored_create_same)
    next
      case False
      then show ?thesis using same that by simp
    qed
    show ?thesis using a b by simp blast
  qed
next
  case (work i s e w' g')
  let ?m = "task_manager (mem s)"
  let ?w = "pool s ! i"
  let ?a = "w_task_id ?w"
  have stay: "job_step_ok d d" if "stored_task ?m a = Some d" for a d
    using inv_job_place [OF work(3) that] job_step_ok_refl by blast
  have wf: "wf_tracker ?m" using work(3) by (simp add: server_inv_def)
  have fr: "task_manager g' = ?m \<or> (\<exists>u. task_manager g' = update_task ?a u (clock e) ?m)"
    using work(2) by (rule worker_step_frame)
  have t: "tasks (task_manager g') = tasks ?m" using fr by (auto simp: tasks_update)
  have other: "stored_task (task_manager g') b = stored_task ?m b" if "b \<noteq> ?a" for b
    using fr wf that by (auto simp: stored_update_other)
  have "?w \<in> set (pool s)" using work(1) by (rule nth_mem)
  then obtain d0 where d0: "stored_task ?m ?a = Some d0" "at_place (w_pc ?w) d0"
    using work(3) unfolding server_inv_def by blast
  obtain d1 where d1: "stored_task (task_manager g') ?a = Some d1" "job_step_ok d0 d1"
    using worker_step_job [OF work(2) d0] by blast
  have a: "\<exists>d'. stored_task (task_manager g') b = Some d' \<and> job_step_ok d d'"
    if "stored_task ?m b = Some d" for b d
  proof (cases "b = ?a")
    case True
    then show ?thesis using that d0 d1 by simp
  next
    case False
    then show ?thesis using other that stay by simp
  qed
  have b: "has d' PENDING 0"
    if "stored_task ?m b = None" "stored_task (task_manager g') b = Some d'" for b d'
  proof -
    have "stored_task (task_manager g') b = None"
      using that(1) t by (simp add: stored_None)
    then show ?thesis using that(2) by simp
  qed
  show ?case using a b by simp blast
next
  case (other g' s)
  have stay: "job_step_ok d d" if "stored_task (task_manager (mem s)) a = Some d" for a d
    using inv_job_place [OF other(2) that] job_step_ok_refl by blast
  then show ?case using other(1) by auto
qed

text \<open>
  Claim C1. In every state the server reaches, and for every step it takes from there
  (an upload, a step of any job of the pool, or another handler), every job record that
  exists before the step exists after it, and \<open>job_step_ok\<close> holds between the two:
  the status stays or changes along \<open>PENDING\<close>, \<open>PROCESSING\<close>, then \<open>COMPLETED\<close>
  or \<open>FAILED\<close>; a terminal status stays; the progress is an integer from 0 to 100; and
  while the job is \<open>PROCESSING\<close> the progress does not decrease. A record that
  appears with the step is \<open>PENDING\<close> with progress 0.
\<close>

theorem job_lifecycle:
  assumes "reachable system_prompt s" and "server_step system_prompt s s'"
  shows "(\<forall>task_id d. stored_task (task_manager (mem s)) task_id = Some d \<longrightarrow>
            (\<exists>d'. stored_task (task_manager (mem s')) task_id = Some d' \<and> job_step_ok d d'))
       \<and> (\<forall>task_id d'. stored_task (task_manager (mem s)) task_id = None
              \<and> stored_task (task_manager (mem s')) task_id = Some d' \<longrightarrow> has d' PENDING 0)"
  using assms(2) inv_reachable [OF assms(1)] by (rule step_jobs)

lemma demo_server1_pool:
  "pool demo_server1 = [\<lparr>w_task_id = ascii ''t1'', w_conversation_id = ascii ''c1'',
       w_file_content = ascii ''Hello world'', w_pc = W_start\<rparr>]"
proof -
  have h: "\<exists>c\<in>set (ascii ''Hello world''). \<not> py_isspace c"
    by (simp add: ascii_def py_isspace_def)
  then have "truthy (Some (ascii ''Hello world'')) \<and> truthy (Some (strip (ascii ''Hello world'')))"
    by (simp only: has_text_iff)
  then show ?thesis
    using allowed_demo
    by (simp add: demo_server1_def demo_server0_def upload_file_def Let_def demo_upload_def)
       (simp add: ascii_def)
qed

lemma demo_server1_job:
  "\<exists>d. stored_task (task_manager (mem demo_server1)) (ascii ''t1'') = Some d \<and> has d PENDING 0"
proof -
  have h: "\<exists>c\<in>set (ascii ''Hello world''). \<not> py_isspace c"
    by (simp add: ascii_def py_isspace_def)
  then have "truthy (Some (ascii ''Hello world'')) \<and> truthy (Some (strip (ascii ''Hello world'')))"
    by (simp only: has_text_iff)
  then have "task_manager (mem demo_server1) =
      snd (create_task (ascii ''t1'') (ascii ''file_analysis'')
            [''filename'' \<mapsto> PStr (ascii ''u1'' @ [95] @ ascii ''notes.txt''),
             ''conversation_id'' \<mapsto> PStr (ascii ''c1''),
             ''file_size'' \<mapsto> PInt 501] 1 1 TaskManager_init)"
    using allowed_demo
    by (simp add: demo_server1_def demo_server0_def upload_file_def Let_def demo_upload_def)
       (simp add: ascii_def)
  then show ?thesis
    using has_created [of "[''filename'' \<mapsto> PStr (ascii ''u1'' @ [95] @ ascii ''notes.txt''),
             ''conversation_id'' \<mapsto> PStr (ascii ''c1''),
             ''file_size'' \<mapsto> PInt 501]"]
    by (simp add: stored_create_same)
qed

theorem job_lifecycle_witness:
  "\<exists>d d'. stored_task (task_manager (mem demo_server1)) (ascii ''t1'') = Some d
      \<and> stored_task (task_manager (mem demo_server2)) (ascii ''t1'') = Some d'
      \<and> has d PENDING 0 \<and> has d' PROCESSING 10 \<and> job_step_ok d d'"
proof -
  have r0: "reachable [] demo_server0"
    unfolding demo_server0_def by (rule reachable.start)
  obtain resp g' job where u: "upload_file (Some (ascii ''a.txt''))
      (demo_upload (Some (ascii ''Hello world''))) (mem demo_server0) = (resp, g', job)"
    by (metis prod_cases3)
  have f: "tasks (task_manager (mem demo_server0))
      (uuid_task (demo_upload (Some (ascii ''Hello world'')))) = None"
    by (simp add: demo_server0_def TaskManager_init_def)
  have "server_step [] demo_server0
      \<lparr>mem = g', pool = pool demo_server0 @ (case job of None \<Rightarrow> [] | Some w \<Rightarrow> [w])\<rparr>"
    using u f by (rule server_step.upload)
  then have s01: "server_step [] demo_server0 demo_server1"
    by (simp add: demo_server1_def u)
  have r1: "reachable [] demo_server1" using r0 s01 by (rule reachable.step)
  obtain w' g2 where w: "worker_step [] demo_step_env (pool demo_server1 ! 0) (mem demo_server1) = (w', g2)"
    by (metis prod.exhaust)
  have n: "0 < length (pool demo_server1)" by (simp add: demo_server1_pool)
  have "server_step [] demo_server1 \<lparr>mem = g2, pool = (pool demo_server1)[0 := w']\<rparr>"
    using n w by (rule server_step.work)
  then have s12: "server_step [] demo_server1 demo_server2"
    by (simp add: demo_server2_def w)
  obtain d where d: "stored_task (task_manager (mem demo_server1)) (ascii ''t1'') = Some d"
    "has d PENDING 0"
    using demo_server1_job by blast
  obtain d' where d': "stored_task (task_manager (mem demo_server2)) (ascii ''t1'') = Some d'"
    "job_step_ok d d'"
    using job_lifecycle [OF r1 s12] d(1) by blast
  have "mem demo_server2 = tracker_update (ascii ''t1'') started 2 (mem demo_server1)"
    by (simp add: demo_server2_def worker_step_def demo_server1_pool demo_step_env_def)
  then have "has d' PROCESSING 10"
    using d(1) d'(1) by (auto simp: stored_tracker_update has_update has_started)
  then show ?thesis using d d' by blast
qed

end
